theory Spec2Isabelle
  imports Main
begin

section \<open>Values of the host language\<close>

text \<open>
  The package \<^verbatim>\<open>@time-travel/core\<close> is TypeScript. Its three modules are embedded here:
  \<^verbatim>\<open>environment.ts\<close> (the environment policy), \<^verbatim>\<open>hijacker.ts\<close> (class \<^verbatim>\<open>TimeHijacker\<close>) and
  \<^verbatim>\<open>controller.ts\<close> (class \<^verbatim>\<open>TimeControllerImpl\<close>).

  A JavaScript number is a double. The numbers that reach the controller are millisecond
  amounts. \<open>Num n\<close> is a whole number. On whole numbers the sums and the products by 60,
  1000 and 24 that the code forms are exact wherever the result is a valid time value (at
  most 8.64e15 in magnitude, below 2^53), and outside that range both the double and the
  integer are rejected by the time clip, so integer arithmetic gives the time values the
  engine gives. \<open>Frac n k\<close> is the number \<open>n / 2^k\<close>: every finite double is of this form. The
  model adds and multiplies these exactly, as the engine does whenever the result has at
  most 53 significant bits; the engine's rounding of longer results is not modelled.
\<close>

datatype jsnum = Num int | Frac int nat | NaN | PosInfinity | NegInfinity

fun isNaN :: "jsnum \<Rightarrow> bool" where
  "isNaN NaN = True"
| "isNaN _ = False"

fun js_add :: "jsnum \<Rightarrow> jsnum \<Rightarrow> jsnum" where
  "js_add (Num a) (Num b) = Num (a + b)"
| "js_add (Num a) (Frac n k) = Frac (a * 2 ^ k + n) k"
| "js_add (Frac n k) (Num b) = Frac (n + b * 2 ^ k) k"
| "js_add (Frac n k) (Frac m j) =
     Frac (n * 2 ^ (max k j - k) + m * 2 ^ (max k j - j)) (max k j)"
| "js_add NaN _ = NaN"
| "js_add _ NaN = NaN"
| "js_add PosInfinity NegInfinity = NaN"
| "js_add NegInfinity PosInfinity = NaN"
| "js_add PosInfinity _ = PosInfinity"
| "js_add NegInfinity _ = NegInfinity"
| "js_add _ PosInfinity = PosInfinity"
| "js_add _ NegInfinity = NegInfinity"


definition js_scale :: "jsnum \<Rightarrow> int \<Rightarrow> jsnum" where
  \<comment> \<open>\<^verbatim>\<open>x * k\<close> for a numeric literal \<^verbatim>\<open>k\<close>\<close>
  "js_scale x k =
     (case x of
        Num a \<Rightarrow> Num (a * k)
      | Frac n j \<Rightarrow> Frac (n * k) j
      | NaN \<Rightarrow> NaN
      | PosInfinity \<Rightarrow> (if k = 0 then NaN else if 0 < k then PosInfinity else NegInfinity)
      | NegInfinity \<Rightarrow> (if k = 0 then NaN else if 0 < k then NegInfinity else PosInfinity))"

text \<open>
  A \<^verbatim>\<open>Date\<close> object is its time value: a whole number of milliseconds since the epoch
  of magnitude at most 8.64e15, or NaN (``Invalid Date''). \<open>TimeClip\<close> is the check the
  native constructor applies to a number: out of range gives NaN, and a number in range
  loses its fraction (it is truncated towards zero).
\<close>

datatype dateval = Invalid_Date | Time int

definition max_time :: int where
  "max_time = 8640000000000000"

definition TimeClip :: "jsnum \<Rightarrow> dateval" where
  "TimeClip x =
     (case x of
        Num n \<Rightarrow> (if \<bar>n\<bar> \<le> max_time then Time n else Invalid_Date)
      | Frac n k \<Rightarrow>
          (if \<bar>n\<bar> \<le> max_time * 2 ^ k
           then Time (if 0 \<le> n then n div 2 ^ k else - ((- n) div 2 ^ k))
           else Invalid_Date)
      | _ \<Rightarrow> Invalid_Date)"

fun getTime :: "dateval \<Rightarrow> jsnum" where
  "getTime Invalid_Date = NaN"
| "getTime (Time n) = Num n"

text \<open>The argument of \<^verbatim>\<open>new Date(value)\<close> and of \<^verbatim>\<open>setTime\<close>: \<^verbatim>\<open>Date | string | number\<close>.\<close>

datatype time_arg = ArgDate dateval | ArgString string | ArgNumber jsnum

fun truthy :: "time_arg \<Rightarrow> bool" where
  "truthy (ArgDate d) = True"
| "truthy (ArgString s) = (s \<noteq> [])"
| "truthy (ArgNumber x) = (case x of Frac n k \<Rightarrow> n \<noteq> 0 | _ \<Rightarrow> x \<noteq> Num 0 \<and> x \<noteq> NaN)"

datatype exn =
    InvalidTime            \<comment> \<open>\<^verbatim>\<open>Error('Invalid time provided to setTime')\<close>\<close>
  | InvalidMilliseconds    \<comment> \<open>\<^verbatim>\<open>Error('Invalid milliseconds provided to addTime')\<close>\<close>
  | CallbackNotFunction    \<comment> \<open>\<^verbatim>\<open>Error('Callback must be a function')\<close>\<close>
  | TypeError              \<comment> \<open>raised by the engine: \<^verbatim>\<open>new undefined(...)\<close>, a property of \<^verbatim>\<open>null\<close>\<close>
  | RangeError             \<comment> \<open>raised by the engine: call stack exhausted\<close>
  | Thrown nat             \<comment> \<open>an exception thrown by the body of the user function with this identity\<close>

datatype Environment = Development | Test | Production

section \<open>The time surface: \<^verbatim>\<open>Date\<close>, \<^verbatim>\<open>moment.now\<close>, \<^verbatim>\<open>dayjs\<close>\<close>

text \<open>
  The function object bound to \<^verbatim>\<open>globalThis.Date\<close> is either the engine's own constructor
  or a \<^verbatim>\<open>ControlledDate\<close> closure made by \<^verbatim>\<open>hijackNativeFunctions\<close>; the closure is
  recorded with the constructor that was the backup when it was made (its non-writable
  property \<^verbatim>\<open>original\<close>).
\<close>

datatype date_fn = NativeDate | ControlledDate date_fn

datatype proto_obj = Date_prototype

fun prototype_prop :: "date_fn \<Rightarrow> proto_obj" where
  "prototype_prop NativeDate = Date_prototype"
| "prototype_prop (ControlledDate b) = prototype_prop b"
  \<comment> \<open>\<^verbatim>\<open>ControlledDate.prototype = this.backup.Date.prototype\<close>\<close>

fun constructor_prop :: "proto_obj \<Rightarrow> date_fn" where
  "constructor_prop Date_prototype = NativeDate"
  \<comment> \<open>\<^verbatim>\<open>Date.prototype.constructor\<close> is the engine's \<^verbatim>\<open>Date\<close>; the code never assigns it\<close>

fun original_prop :: "date_fn \<Rightarrow> date_fn option" where
  "original_prop NativeDate = None"
| "original_prop (ControlledDate b) = Some b"
  \<comment> \<open>\<^verbatim>\<open>Object.defineProperty(ControlledDate, 'original', { value: this.backup.Date })\<close>\<close>

definition this_constructor_original :: "date_fn \<Rightarrow> date_fn option" where
  \<comment> \<open>\<^verbatim>\<open>this.constructor.original\<close> inside \<^verbatim>\<open>new f(...)\<close>: \<^verbatim>\<open>this\<close> inherits from
      \<^verbatim>\<open>f.prototype\<close>, so \<^verbatim>\<open>this.constructor\<close> is that prototype's \<^verbatim>\<open>constructor\<close>\<close>
  "this_constructor_original f = original_prop (constructor_prop (prototype_prop f))"

text \<open>
  \<^verbatim>\<open>moment.now\<close> is the library's own function or a shim closing over \<^verbatim>\<open>original\<close>; a shim
  carries the own property \<^verbatim>\<open>__original\<close> until it is deleted. \<^verbatim>\<open>dayjs\<close> is the library's
  function or a shim whose \<^verbatim>\<open>__original\<close> is the function it wraps.
\<close>

datatype now_fn = NativeNow | NowShim now_fn "now_fn option"

fun now___original :: "now_fn \<Rightarrow> now_fn option" where
  "now___original NativeNow = None"
| "now___original (NowShim original p) = p"

fun delete___original :: "now_fn \<Rightarrow> now_fn" where
  "delete___original NativeNow = NativeNow"
| "delete___original (NowShim original p) = NowShim original None"

datatype moment_lib = Moment (now: "now_fn option")

datatype dayjs_fn = NativeDayjs | DayjsShim dayjs_fn

fun dayjs___original :: "dayjs_fn \<Rightarrow> dayjs_fn option" where
  "dayjs___original NativeDayjs = None"
| "dayjs___original (DayjsShim original) = Some original"

text \<open>
  What a call returns. The libraries' own functions are outside the repository; what is
  kept of them is that they read the time through the global \<^verbatim>\<open>Date\<close> binding:
  \<^verbatim>\<open>moment.now()\<close> is \<^verbatim>\<open>Date.now()\<close>, and \<^verbatim>\<open>dayjs(...args)\<close> wraps \<^verbatim>\<open>new Date(...args)\<close>.
\<close>

datatype js_value =
    DateObject dateval
  | DateString dateval            \<comment> \<open>\<^verbatim>\<open>toString()\<close> of a Date\<close>
  | Number jsnum
  | DayjsObject dateval           \<comment> \<open>a Day.js object, wrapping a Date\<close>

section \<open>Callbacks, options and the state\<close>

text \<open>
  A subscriber or \<^verbatim>\<open>onTimeChange\<close> callback is a function object, known by its identity.
  What its body does to the controller is a list of actions: it may throw, call
  \<^verbatim>\<open>controller.subscribe(g)\<close>, or call the unsubscribe closure of \<^verbatim>\<open>g\<close>. Bodies that
  re-enter the time-mutating operations are not modelled.
\<close>

datatype cb_action = Throw | CallSubscribe nat | CallUnsubscribe nat

datatype handler = EmptyArrow | UserFn nat   \<comment> \<open>\<^verbatim>\<open>() => {}\<close>, or a function given by the caller\<close>

datatype console_msg =
    Warn_cannot_enable_in_production
  | Error_in_subscriber_callback exn
  | Info_enabled Environment
  | Warn_environment Environment
  | Info_disabled Environment

record TimeControlOptions =
  enabled_opt :: "bool option"
  startTime_opt :: "time_arg option"
  hijackLibraries_opt :: "bool option"
  environment_opt :: "Environment option"
  onTimeChange_opt :: "nat option"

record RequiredOptions =
  opt_enabled :: bool
  opt_startTime :: time_arg
  opt_hijackLibraries :: bool
  opt_environment :: Environment
  opt_onTimeChange :: handler

text \<open>The signals \<^verbatim>\<open>detectEnvironment\<close> reads.\<close>

record signals =
  NODE_ENV :: "string option"    \<comment> \<open>\<^verbatim>\<open>process.env.NODE_ENV\<close>, when \<^verbatim>\<open>process.env\<close> exists\<close>
  test_runner_marker :: bool     \<comment> \<open>\<^verbatim>\<open>'jest' in window || ... || HeadlessChrome\<close>\<close>
  hostname :: string
  port :: string
  protocol :: string

text \<open>
  The state: the runtime the code runs in, the one \<^verbatim>\<open>TimeControllerImpl\<close> and its
  \<^verbatim>\<open>TimeHijacker\<close>. In a browser \<^verbatim>\<open>window\<close> is \<^verbatim>\<open>globalThis\<close>, so \<^verbatim>\<open>window.moment\<close> and
  \<^verbatim>\<open>window.dayjs\<close> are the global bindings; \<open>require_moment\<close> and \<open>require_dayjs\<close> are what
  \<^verbatim>\<open>require\<close> returns (\<open>None\<close> when \<^verbatim>\<open>require\<close> is undefined or the module is missing).
  A library object that is present is the library's function.
\<close>

record world =
  has_globalThis :: bool
  has_window :: bool
  has_document :: bool
  env_signals :: signals
  wall_clock :: int                        \<comment> \<open>the real time, a valid time value\<close>
  Date_parse :: "string \<Rightarrow> dateval"         \<comment> \<open>the engine's date-string parser\<close>
  global_Date :: date_fn
  global_moment :: "moment_lib option"
  require_moment :: "moment_lib option"
  global_dayjs :: "dayjs_fn option"
  require_dayjs :: "dayjs_fn option"
  fn_body :: "nat \<Rightarrow> cb_action list"
  console :: "console_msg list"
  calls :: "(nat \<times> dateval) list"        \<comment> \<open>every user-function call made so far, with its argument\<close>
  currentTime :: dateval                   \<comment> \<open>\<^verbatim>\<open>TimeControllerImpl\<close>\<close>
  enabled :: bool
  subscribers :: "nat option list"
  options :: RequiredOptions
  backup :: "date_fn option"               \<comment> \<open>\<^verbatim>\<open>TimeHijacker\<close>: \<^verbatim>\<open>backup.Date\<close>\<close>
  isHijacked :: bool

section \<open>\<^verbatim>\<open>environment.ts\<close>\<close>

fun to_lower :: "char \<Rightarrow> char" where
  "to_lower c = (let n = (of_char c :: nat) in if 65 \<le> n \<and> n \<le> 90 then char_of (n + 32) else c)"

fun starts_with :: "string \<Rightarrow> string \<Rightarrow> bool" where
  "starts_with s [] = True"
| "starts_with [] (p # ps) = False"
| "starts_with (c # cs) (p # ps) = (c = p \<and> starts_with cs ps)"

fun str_includes :: "string \<Rightarrow> string \<Rightarrow> bool" where
  "str_includes [] p = (p = [])"
| "str_includes (c # cs) p = (starts_with (c # cs) p \<or> str_includes cs p)"

definition detectEnvironment :: "world \<Rightarrow> Environment" where
  "detectEnvironment w =
     (let s = env_signals w;
          nodeEnv = map_option (map to_lower) (NODE_ENV s) in
      if nodeEnv = Some ''production'' then Production
      else if nodeEnv = Some ''test'' then Test
      else if nodeEnv = Some ''development'' then Development
      else if has_window w then
        (if test_runner_marker s then Test
         else if hostname s = ''localhost'' \<or> hostname s = ''127.0.0.1''
                 \<or> str_includes (hostname s) ''.local'' \<or> port s \<noteq> [] then Development
         else if protocol s = ''https:'' \<or> \<not> str_includes (hostname s) ''.'' then Production
         else Development)
      else Development)"

definition shouldEnableTimeControl :: "Environment option \<Rightarrow> world \<Rightarrow> bool" where
  "shouldEnableTimeControl environment w =
     (let env = (case environment of Some e \<Rightarrow> e | None \<Rightarrow> detectEnvironment w) in
      if env = Production then False
      else env = Development \<or> env = Test)"

definition isBrowser :: "world \<Rightarrow> bool" where
  "isBrowser w = (has_window w \<and> has_document w)"

fun getEnvironmentWarning :: "Environment \<Rightarrow> bool" where
  "getEnvironmentWarning Production = True"
| "getEnvironmentWarning Test = False"
| "getEnvironmentWarning Development = False"

definition logEnvironmentInfo :: "Environment \<Rightarrow> bool \<Rightarrow> world \<Rightarrow> world" where
  "logEnvironmentInfo environment en w =
     (if \<not> isBrowser w then w
      else if en then w\<lparr>console := console w @ [Info_enabled environment]\<rparr>
      else if getEnvironmentWarning environment
        then w\<lparr>console := console w @ [Warn_environment environment]\<rparr>
      else w\<lparr>console := console w @ [Info_disabled environment]\<rparr>)"

section \<open>Calling through the time surface\<close>

definition native_Date1 :: "time_arg \<Rightarrow> world \<Rightarrow> dateval" where
  \<comment> \<open>the engine's \<^verbatim>\<open>new Date(value)\<close>\<close>
  "native_Date1 a w =
     (case a of ArgDate d \<Rightarrow> d | ArgString s \<Rightarrow> Date_parse w s | ArgNumber x \<Rightarrow> TimeClip x)"

text \<open>
  \<^verbatim>\<open>new f(value)\<close>. For a \<^verbatim>\<open>ControlledDate\<close> this is the branch
  \<^verbatim>\<open>return new this.constructor.original(...args)\<close>: a \<^verbatim>\<open>TypeError\<close> when
  \<^verbatim>\<open>this.constructor.original\<close> is undefined. In \<^verbatim>\<open>new ControlledDate(...)\<close> the object
  \<^verbatim>\<open>this\<close> is fresh and inherits from \<^verbatim>\<open>ControlledDate.prototype\<close>, which
  \<^verbatim>\<open>hijackNativeFunctions\<close> has set to the backup's \<^verbatim>\<open>Date.prototype\<close>; so
  \<^verbatim>\<open>this.constructor\<close> is read from \<^verbatim>\<open>Date.prototype\<close> and is the engine's \<^verbatim>\<open>Date\<close>, while the
  property \<^verbatim>\<open>original\<close> was defined on \<^verbatim>\<open>ControlledDate\<close>. The functions \<open>prototype_prop\<close>,
  \<open>constructor_prop\<close> and \<open>original_prop\<close> are these three property reads.
\<close>

function Date_construct1 :: "date_fn \<Rightarrow> time_arg \<Rightarrow> world \<Rightarrow> exn + dateval" where
  "Date_construct1 NativeDate a w = Inr (native_Date1 a w)"
| "Date_construct1 (ControlledDate b) a w =
     (case this_constructor_original (ControlledDate b) of
        None \<Rightarrow> Inl TypeError
      | Some orig \<Rightarrow> Date_construct1 orig a w)"
  by pat_completeness auto
termination
proof (relation "{}")
  show "wf {}" by simp
next
  fix b :: date_fn and a :: time_arg and w :: world and x2
  assume "this_constructor_original (ControlledDate b) = Some x2"
  then have False
    by (cases "prototype_prop b") (simp add: this_constructor_original_def)
  then show "((x2, a, w), ControlledDate b, a, w) \<in> {}" ..
qed

definition isActive :: "world \<Rightarrow> bool" where
  "isActive w = enabled w"

definition getCurrentTime :: "world \<Rightarrow> exn + dateval" where
  \<comment> \<open>\<^verbatim>\<open>return new Date(this.currentTime.getTime())\<close>, \<^verbatim>\<open>Date\<close> being the global binding\<close>
  "getCurrentTime w = Date_construct1 (global_Date w) (ArgNumber (getTime (currentTime w))) w"

definition Date_construct0 :: "date_fn \<Rightarrow> world \<Rightarrow> exn + dateval" where
  \<comment> \<open>\<^verbatim>\<open>new f()\<close>\<close>
  "Date_construct0 f w =
     (case f of
        NativeDate \<Rightarrow> Inr (Time (wall_clock w))
      | ControlledDate b \<Rightarrow>
          (case getCurrentTime w of
             Inl e \<Rightarrow> Inl e
           | Inr controlled \<Rightarrow>
               (case this_constructor_original f of
                  None \<Rightarrow> Inl TypeError
                | Some orig \<Rightarrow> Date_construct1 orig (ArgNumber (getTime controlled)) w)))"

definition new_Date :: "time_arg option \<Rightarrow> world \<Rightarrow> exn + dateval" where
  \<comment> \<open>\<^verbatim>\<open>new Date()\<close> and \<^verbatim>\<open>new Date(value)\<close> at any call site\<close>
  "new_Date args w =
     (case args of None \<Rightarrow> Date_construct0 (global_Date w) w
                 | Some a \<Rightarrow> Date_construct1 (global_Date w) a w)"

definition Date_call0 :: "date_fn \<Rightarrow> world \<Rightarrow> exn + js_value" where
  \<comment> \<open>\<^verbatim>\<open>f()\<close> without \<^verbatim>\<open>new\<close>\<close>
  "Date_call0 f w =
     (case f of
        NativeDate \<Rightarrow> Inr (DateString (Time (wall_clock w)))
      | ControlledDate b \<Rightarrow>
          (case getCurrentTime w of Inl e \<Rightarrow> Inl e | Inr d \<Rightarrow> Inr (DateString d)))"

definition backup_DateNow :: "date_fn \<Rightarrow> world \<Rightarrow> exn + js_value" where
  \<comment> \<open>\<^verbatim>\<open>this.backup.DateNow.call(this.backup.Date)\<close>. When the backup is itself a shim of
      this hijacker, its \<^verbatim>\<open>now\<close> reads \<^verbatim>\<open>this.backup\<close> again and the call never returns.\<close>
  "backup_DateNow bk w =
     (case bk of NativeDate \<Rightarrow> Inr (Number (Num (wall_clock w)))
               | ControlledDate b \<Rightarrow> Inl RangeError)"

definition Date_now :: "date_fn \<Rightarrow> world \<Rightarrow> exn + js_value" where
  \<comment> \<open>\<^verbatim>\<open>f.now()\<close>\<close>
  "Date_now f w =
     (case f of
        NativeDate \<Rightarrow> Inr (Number (Num (wall_clock w)))
      | ControlledDate b \<Rightarrow>
          (if \<not> isActive w then
             (case backup w of None \<Rightarrow> Inl TypeError | Some bk \<Rightarrow> backup_DateNow bk w)
           else
             (case getCurrentTime w of Inl e \<Rightarrow> Inl e | Inr d \<Rightarrow> Inr (Number (getTime d)))))"

fun now_call :: "now_fn \<Rightarrow> world \<Rightarrow> exn + js_value" where
  "now_call NativeNow w = Date_now (global_Date w) w"
| "now_call (NowShim original p) w =
     (if \<not> isActive w then now_call original w
      else (case getCurrentTime w of Inl e \<Rightarrow> Inl e | Inr d \<Rightarrow> Inr (Number (getTime d))))"

fun dayjs_call :: "dayjs_fn \<Rightarrow> time_arg option \<Rightarrow> world \<Rightarrow> exn + js_value" where
  "dayjs_call NativeDayjs args w =
     (case new_Date args w of Inl e \<Rightarrow> Inl e | Inr d \<Rightarrow> Inr (DayjsObject d))"
| "dayjs_call (DayjsShim original) args w =
     (if args = None \<and> isActive w then
        (case getCurrentTime w of
           Inl e \<Rightarrow> Inl e
         | Inr d \<Rightarrow> dayjs_call original (Some (ArgDate d)) w)
      else dayjs_call original args w)"

section \<open>\<^verbatim>\<open>hijacker.ts\<close>: class \<^verbatim>\<open>TimeHijacker\<close>\<close>

definition hijackNativeFunctions :: "world \<Rightarrow> world" where
  "hijackNativeFunctions w =
     (if isHijacked w \<or> \<not> has_globalThis w then w
      else w\<lparr>backup := Some (global_Date w),
             global_Date := ControlledDate (global_Date w),
             isHijacked := True\<rparr>)"

definition restoreNativeFunctions :: "world \<Rightarrow> world" where
  "restoreNativeFunctions w =
     (if \<not> isHijacked w \<or> backup w = None \<or> \<not> has_globalThis w then w
      else (case backup w of
              None \<Rightarrow> w
            | Some bk \<Rightarrow> w\<lparr>global_Date := bk, isHijacked := False\<rparr>))"

datatype lib_slot = AtGlobal | AtRequire

definition find_moment :: "world \<Rightarrow> (lib_slot \<times> moment_lib) option" where
  \<comment> \<open>\<^verbatim>\<open>globalThis.moment || (window && window.moment) || (require && require('moment'))\<close>\<close>
  "find_moment w =
     (case global_moment w of
        Some m \<Rightarrow> Some (AtGlobal, m)
      | None \<Rightarrow> (case require_moment w of Some m \<Rightarrow> Some (AtRequire, m) | None \<Rightarrow> None))"

definition put_moment :: "lib_slot \<Rightarrow> moment_lib \<Rightarrow> world \<Rightarrow> world" where
  "put_moment slot m w =
     (case slot of AtGlobal \<Rightarrow> w\<lparr>global_moment := Some m\<rparr>
                 | AtRequire \<Rightarrow> w\<lparr>require_moment := Some m\<rparr>)"

definition hijackMoment :: "world \<Rightarrow> world" where
  "hijackMoment w =
     (if \<not> has_globalThis w then w
      else (case find_moment w of
              None \<Rightarrow> w
            | Some (slot, m) \<Rightarrow>
                (case now m of
                   None \<Rightarrow> w
                 | Some original \<Rightarrow>
                     put_moment slot (Moment (Some (NowShim original (Some original)))) w)))"

definition restoreMoment :: "world \<Rightarrow> world" where
  \<comment> \<open>looks at \<^verbatim>\<open>globalThis.moment || (window && window.moment)\<close> only\<close>
  "restoreMoment w =
     (if \<not> has_globalThis w then w
      else (case global_moment w of
              None \<Rightarrow> w
            | Some m \<Rightarrow>
                (case now m of
                   None \<Rightarrow> w
                 | Some f \<Rightarrow>
                     (case now___original f of
                        None \<Rightarrow> w
                      | Some orig \<Rightarrow>
                          w\<lparr>global_moment := Some (Moment (Some (delete___original orig)))\<rparr>))))"

definition find_dayjs :: "world \<Rightarrow> dayjs_fn option" where
  "find_dayjs w = (case global_dayjs w of Some d \<Rightarrow> Some d | None \<Rightarrow> require_dayjs w)"

definition hijackDayjs :: "world \<Rightarrow> world" where
  "hijackDayjs w =
     (if \<not> has_globalThis w then w
      else (case find_dayjs w of
              None \<Rightarrow> w
            | Some original \<Rightarrow>
                (if global_dayjs w \<noteq> None then w\<lparr>global_dayjs := Some (DayjsShim original)\<rparr>
                 else w)))"

definition restoreDayjs :: "world \<Rightarrow> world" where
  "restoreDayjs w =
     (if \<not> has_globalThis w then w
      else (case global_dayjs w of
              None \<Rightarrow> w
            | Some d \<Rightarrow>
                (case dayjs___original d of
                   None \<Rightarrow> w
                 | Some original \<Rightarrow> w\<lparr>global_dayjs := Some original\<rparr>)))"

definition hijackDateFns :: "world \<Rightarrow> world" where
  "hijackDateFns w = w"

definition restoreDateFns :: "world \<Rightarrow> world" where
  "restoreDateFns w = w"

definition hijackLibraries :: "world \<Rightarrow> world" where
  "hijackLibraries w = hijackDateFns (hijackDayjs (hijackMoment w))"

definition restoreLibraries :: "world \<Rightarrow> world" where
  "restoreLibraries w = restoreDateFns (restoreDayjs (restoreMoment w))"

definition TimeHijacker_isActive :: "world \<Rightarrow> bool" where
  "TimeHijacker_isActive w = isHijacked w"

definition TimeHijacker_destroy :: "world \<Rightarrow> world" where
  "TimeHijacker_destroy w = (restoreLibraries (restoreNativeFunctions w))\<lparr>backup := None\<rparr>"

section \<open>\<^verbatim>\<open>controller.ts\<close>: class \<^verbatim>\<open>TimeControllerImpl\<close>\<close>

text \<open>
  \<^verbatim>\<open>subscribers\<close> is a JavaScript \<^verbatim>\<open>Set\<close>: its entries in insertion order, a deleted
  entry leaving an empty slot, so that \<^verbatim>\<open>forEach\<close> can run while the set changes.
\<close>

definition Set_add :: "nat \<Rightarrow> nat option list \<Rightarrow> nat option list" where
  "Set_add x es = (if Some x \<in> set es then es else es @ [Some x])"

definition Set_delete :: "nat \<Rightarrow> nat option list \<Rightarrow> nat option list" where
  "Set_delete x es = map (\<lambda>e. if e = Some x then None else e) es"

definition Set_clear :: "nat option list \<Rightarrow> nat option list" where
  "Set_clear es = map (\<lambda>e. None) es"

fun Set_members :: "nat option list \<Rightarrow> nat list" where
  "Set_members [] = []"
| "Set_members (None # es) = Set_members es"
| "Set_members (Some x # es) = x # Set_members es"

datatype fn_arg = Fn nat | NotAFunction

definition unsubscribe :: "nat \<Rightarrow> world \<Rightarrow> world" where
  \<comment> \<open>the closure \<^verbatim>\<open>() => { this.subscribers.delete(callback) }\<close> that \<^verbatim>\<open>subscribe\<close> returns\<close>
  "unsubscribe g w = w\<lparr>subscribers := Set_delete g (subscribers w)\<rparr>"

definition subscribe :: "fn_arg \<Rightarrow> world \<Rightarrow> (exn + unit) \<times> world" where
  "subscribe callback w =
     (case callback of
        NotAFunction \<Rightarrow> (Inl CallbackNotFunction, w)
      | Fn g \<Rightarrow> (Inr (), w\<lparr>subscribers := Set_add g (subscribers w)\<rparr>))"

fun run_actions :: "nat \<Rightarrow> cb_action list \<Rightarrow> world \<Rightarrow> (exn + unit) \<times> world" where
  "run_actions f [] w = (Inr (), w)"
| "run_actions f (Throw # as) w = (Inl (Thrown f), w)"
| "run_actions f (CallSubscribe g # as) w = run_actions f as (snd (subscribe (Fn g) w))"
| "run_actions f (CallUnsubscribe g # as) w = run_actions f as (unsubscribe g w)"

definition call_fn :: "nat \<Rightarrow> dateval \<Rightarrow> world \<Rightarrow> (exn + unit) \<times> world" where
  \<comment> \<open>\<^verbatim>\<open>f(d)\<close> for a user function \<^verbatim>\<open>f\<close>\<close>
  "call_fn f d w = run_actions f (fn_body w f) (w\<lparr>calls := calls w @ [(f, d)]\<rparr>)"

definition call_handler :: "handler \<Rightarrow> dateval \<Rightarrow> world \<Rightarrow> (exn + unit) \<times> world" where
  "call_handler h d w = (case h of EmptyArrow \<Rightarrow> (Inr (), w) | UserFn f \<Rightarrow> call_fn f d w)"

definition try_callback :: "nat \<Rightarrow> dateval \<Rightarrow> world \<Rightarrow> world" where
  \<comment> \<open>\<^verbatim>\<open>try { callback(currentTime) } catch (error) { console.error(...) }\<close>\<close>
  "try_callback cb t w =
     (case call_fn cb t w of
        (Inl e, w') \<Rightarrow> w'\<lparr>console := console w' @ [Error_in_subscriber_callback e]\<rparr>
      | (Inr u, w') \<Rightarrow> w')"

text \<open>
  \<^verbatim>\<open>this.subscribers.forEach(callback => ...)\<close>: the engine walks the entry list by index
  and reads its length again at every step. The walk need not end (a callback may delete
  and add itself again for ever); then the result is \<open>None\<close>.
\<close>

partial_function (option) forEach :: "nat \<Rightarrow> dateval \<Rightarrow> world \<Rightarrow> world option" where
  "forEach index t w =
     (if index < length (subscribers w) then
        (case subscribers w ! index of
           None \<Rightarrow> forEach (Suc index) t w
         | Some cb \<Rightarrow> forEach (Suc index) t (try_callback cb t w))
      else Some w)"

type_synonym run = "((exn + unit) \<times> world) option"

definition notifySubscribers :: "world \<Rightarrow> run" where
  "notifySubscribers w =
     (case getCurrentTime w of
        Inl e \<Rightarrow> Some (Inl e, w)
      | Inr t \<Rightarrow> (case forEach 0 t w of None \<Rightarrow> None | Some w' \<Rightarrow> Some (Inr (), w')))"

definition announce :: "world \<Rightarrow> run" where
  \<comment> \<open>the two statements that end \<^verbatim>\<open>setTime\<close> and \<^verbatim>\<open>addTime\<close>:
      \<^verbatim>\<open>this.notifySubscribers(); this.options.onTimeChange(this.getCurrentTime())\<close>\<close>
  "announce w =
     (case notifySubscribers w of
        None \<Rightarrow> None
      | Some (Inl e, w1) \<Rightarrow> Some (Inl e, w1)
      | Some (Inr u, w1) \<Rightarrow>
          (case getCurrentTime w1 of
             Inl e \<Rightarrow> Some (Inl e, w1)
           | Inr t \<Rightarrow> Some (call_handler (opt_onTimeChange (options w1)) t w1)))"

definition setTime :: "time_arg \<Rightarrow> world \<Rightarrow> run" where
  "setTime time w =
     (case new_Date (Some time) w of
        Inl e \<Rightarrow> Some (Inl e, w)
      | Inr newTime \<Rightarrow>
          (if isNaN (getTime newTime) then Some (Inl InvalidTime, w)
           else announce (w\<lparr>currentTime := newTime\<rparr>)))"

definition addTime :: "jsnum \<Rightarrow> world \<Rightarrow> run" where
  "addTime milliseconds w =
     (if isNaN milliseconds then Some (Inl InvalidMilliseconds, w)
      else (case new_Date (Some (ArgNumber (js_add (getTime (currentTime w)) milliseconds))) w of
              Inl e \<Rightarrow> Some (Inl e, w)
            | Inr d \<Rightarrow> announce (w\<lparr>currentTime := d\<rparr>)))"

definition addMinutes :: "jsnum \<Rightarrow> world \<Rightarrow> run" where
  "addMinutes minutes w = addTime (js_scale (js_scale minutes 60) 1000) w"

definition addHours :: "jsnum \<Rightarrow> world \<Rightarrow> run" where
  "addHours hours w = addTime (js_scale (js_scale (js_scale hours 60) 60) 1000) w"

definition addDays :: "jsnum \<Rightarrow> world \<Rightarrow> run" where
  "addDays days w = addTime (js_scale (js_scale (js_scale (js_scale days 24) 60) 60) 1000) w"

definition resetToRealTime :: "world \<Rightarrow> run" where
  \<comment> \<open>\<^verbatim>\<open>this.setTime(new Date())\<close>\<close>
  "resetToRealTime w =
     (case new_Date None w of
        Inl e \<Rightarrow> Some (Inl e, w)
      | Inr d \<Rightarrow> setTime (ArgDate d) w)"

definition enable :: "world \<Rightarrow> run" where
  "enable w =
     (if enabled w then Some (Inr (), w)
      else if \<not> shouldEnableTimeControl (Some (opt_environment (options w))) w
        then Some (Inr (), w\<lparr>console := console w @ [Warn_cannot_enable_in_production]\<rparr>)
      else
        (let w1 = hijackNativeFunctions (w\<lparr>enabled := True\<rparr>);
             w2 = (if opt_hijackLibraries (options w1) then hijackLibraries w1 else w1)
         in notifySubscribers w2))"

definition disable :: "world \<Rightarrow> run" where
  "disable w =
     (if \<not> enabled w then Some (Inr (), w)
      else notifySubscribers (restoreLibraries (restoreNativeFunctions (w\<lparr>enabled := False\<rparr>))))"

definition merge_options :: "RequiredOptions \<Rightarrow> TimeControlOptions \<Rightarrow> RequiredOptions" where
  \<comment> \<open>\<^verbatim>\<open>{ ...this.options, ...newOptions }\<close>, an absent key being \<open>None\<close>\<close>
  "merge_options old n =
     \<lparr>opt_enabled = (case enabled_opt n of Some b \<Rightarrow> b | None \<Rightarrow> opt_enabled old),
      opt_startTime = (case startTime_opt n of Some a \<Rightarrow> a | None \<Rightarrow> opt_startTime old),
      opt_hijackLibraries =
        (case hijackLibraries_opt n of Some b \<Rightarrow> b | None \<Rightarrow> opt_hijackLibraries old),
      opt_environment = (case environment_opt n of Some e \<Rightarrow> e | None \<Rightarrow> opt_environment old),
      opt_onTimeChange =
        (case onTimeChange_opt n of Some f \<Rightarrow> UserFn f | None \<Rightarrow> opt_onTimeChange old)\<rparr>"

definition updateOptions :: "TimeControlOptions \<Rightarrow> world \<Rightarrow> run" where
  "updateOptions newOptions w =
     (let oldHijackLibraries = opt_hijackLibraries (options w);
          w1 = w\<lparr>options := merge_options (options w) newOptions\<rparr>;
          w2 = (if enabled w1 \<and> oldHijackLibraries \<noteq> opt_hijackLibraries (options w1)
                then (if opt_hijackLibraries (options w1) then hijackLibraries w1
                      else restoreLibraries w1)
                else w1)
      in case onTimeChange_opt newOptions of
           None \<Rightarrow> Some (Inr (), w2)
         | Some f \<Rightarrow>
             (case getCurrentTime w2 of
                Inl e \<Rightarrow> Some (Inl e, w2)
              | Inr t \<Rightarrow> Some (call_fn f t w2)))"

definition destroy :: "world \<Rightarrow> run" where
  "destroy w =
     (case disable w of
        None \<Rightarrow> None
      | Some (Inl e, w1) \<Rightarrow> Some (Inl e, w1)
      | Some (Inr u, w1) \<Rightarrow>
          (let w2 = TimeHijacker_destroy w1
           in Some (Inr (), w2\<lparr>subscribers := Set_clear (subscribers w2)\<rparr>)))"

definition resolve_startTime :: "TimeControlOptions \<Rightarrow> world \<Rightarrow> exn + time_arg" where
  \<comment> \<open>\<^verbatim>\<open>options.startTime || new Date()\<close>\<close>
  "resolve_startTime opts w =
     (case startTime_opt opts of
        Some a \<Rightarrow>
          (if truthy a then Inr a
           else (case new_Date None w of Inl e \<Rightarrow> Inl e | Inr d \<Rightarrow> Inr (ArgDate d)))
      | None \<Rightarrow> (case new_Date None w of Inl e \<Rightarrow> Inl e | Inr d \<Rightarrow> Inr (ArgDate d)))"

definition TimeControllerImpl_new :: "TimeControlOptions \<Rightarrow> world \<Rightarrow> run" where
  \<comment> \<open>the field initialisers and the constructor; the state returned with an exception is
      what the partly built object and the runtime hold when it is thrown\<close>
  "TimeControllerImpl_new opts w =
     (case new_Date None w of
        Inl e \<Rightarrow> Some (Inl e, w)
      | Inr d0 \<Rightarrow>
          (let w1 = w\<lparr>currentTime := d0, enabled := False, subscribers := []\<rparr>;
               environment =
                 (case environment_opt opts of Some e \<Rightarrow> e | None \<Rightarrow> detectEnvironment w1)
           in case resolve_startTime opts w1 of
                Inl e \<Rightarrow> Some (Inl e, w1)
              | Inr startTime \<Rightarrow>
                  (let w2 = w1\<lparr>options :=
                         \<lparr>opt_enabled =
                            (case enabled_opt opts of
                               Some b \<Rightarrow> b
                             | None \<Rightarrow> shouldEnableTimeControl (Some environment) w1),
                          opt_startTime = startTime,
                          opt_hijackLibraries =
                            (case hijackLibraries_opt opts of Some b \<Rightarrow> b | None \<Rightarrow> True),
                          opt_environment = environment,
                          opt_onTimeChange =
                            (case onTimeChange_opt opts of
                               Some f \<Rightarrow> UserFn f
                             | None \<Rightarrow> EmptyArrow)\<rparr>\<rparr>
                   in case setTime (opt_startTime (options w2)) w2 of
                        None \<Rightarrow> None
                      | Some (Inl e, w3) \<Rightarrow> Some (Inl e, w3)
                      | Some (Inr u, w3) \<Rightarrow>
                          (let w4 = w3\<lparr>backup := None, isHijacked := False\<rparr>
                           in case (if opt_enabled (options w4) then enable w4
                                    else Some (Inr (), w4)) of
                                None \<Rightarrow> None
                              | Some (Inl e, w5) \<Rightarrow> Some (Inl e, w5)
                              | Some (Inr u, w5) \<Rightarrow>
                                  Some (Inr (),
                                    logEnvironmentInfo (opt_environment (options w5))
                                      (enabled w5) w5)))))"

text \<open>The public operations, and a caller that runs them one after the other, catching
  what they throw.\<close>

datatype operation =
    OpGetCurrentTime
  | OpSetTime time_arg
  | OpAddTime jsnum
  | OpAddMinutes jsnum
  | OpAddHours jsnum
  | OpAddDays jsnum
  | OpResetToRealTime
  | OpIsActive
  | OpEnable
  | OpDisable
  | OpSubscribe fn_arg
  | OpUnsubscribe nat
  | OpUpdateOptions TimeControlOptions
  | OpDestroy

fun apply_op :: "operation \<Rightarrow> world \<Rightarrow> run" where
  "apply_op OpGetCurrentTime w =
     (case getCurrentTime w of Inl e \<Rightarrow> Some (Inl e, w) | Inr d \<Rightarrow> Some (Inr (), w))"
| "apply_op (OpSetTime a) w = setTime a w"
| "apply_op (OpAddTime x) w = addTime x w"
| "apply_op (OpAddMinutes x) w = addMinutes x w"
| "apply_op (OpAddHours x) w = addHours x w"
| "apply_op (OpAddDays x) w = addDays x w"
| "apply_op OpResetToRealTime w = resetToRealTime w"
| "apply_op OpIsActive w = Some (Inr (), w)"
| "apply_op OpEnable w = enable w"
| "apply_op OpDisable w = disable w"
| "apply_op (OpSubscribe c) w = Some (subscribe c w)"
| "apply_op (OpUnsubscribe g) w = Some (Inr (), unsubscribe g w)"
| "apply_op (OpUpdateOptions n) w = updateOptions n w"
| "apply_op OpDestroy w = destroy w"

fun run_ops :: "operation list \<Rightarrow> world \<Rightarrow> world option" where
  "run_ops [] w = Some w"
| "run_ops (op # ops) w =
     (case apply_op op w of None \<Rightarrow> None | Some (r, w') \<Rightarrow> run_ops ops w')"

declare forEach.simps [code]

section \<open>Notions used in the statements\<close>

definition untouched :: "world \<Rightarrow> world \<Rightarrow> bool" where
  \<comment> \<open>the second state differs from the first at most in the subscriber set, the record of
      calls and the console\<close>
  "untouched w w' \<longleftrightarrow>
     w' = w\<lparr>subscribers := subscribers w', calls := calls w', console := console w'\<rparr>"

definition quiet_round :: "world \<Rightarrow> bool" where
  \<comment> \<open>no subscriber's body subscribes or unsubscribes: it returns or throws\<close>
  "quiet_round w \<longleftrightarrow>
     list_all (\<lambda>e. case e of None \<Rightarrow> True
                     | Some cb \<Rightarrow> list_all (\<lambda>a. a = Throw) (fn_body w cb)) (subscribers w)"

definition never_subscribes :: "world \<Rightarrow> bool" where
  \<comment> \<open>no user function calls \<^verbatim>\<open>subscribe\<close> from its body\<close>
  "never_subscribes w \<longleftrightarrow> (\<forall>f g. CallSubscribe g \<notin> set (fn_body w f))"

definition throws :: "world \<Rightarrow> nat \<Rightarrow> bool" where
  "throws w f \<longleftrightarrow> Throw \<in> set (fn_body w f)"


definition round_calls :: "world \<Rightarrow> (nat \<times> dateval) list option" where
  \<comment> \<open>the calls made during one notification round started in \<open>w\<close>\<close>
  "round_calls w =
     (case notifySubscribers w of
        None \<Rightarrow> None
      | Some (r, w') \<Rightarrow> Some (drop (length (calls w)) (calls w')))"

definition round_errors :: "world \<Rightarrow> console_msg list option" where
  \<comment> \<open>what one notification round started in \<open>w\<close> writes to the console\<close>
  "round_errors w =
     (case notifySubscribers w of
        None \<Rightarrow> None
      | Some (r, w') \<Rightarrow> Some (drop (length (console w)) (console w')))"

fun keeps_environment :: "operation \<Rightarrow> bool" where
  "keeps_environment (OpUpdateOptions n) =
     (environment_opt n = None \<or> environment_opt n = Some Production)"
| "keeps_environment _ = True"

definition requested :: "TimeControlOptions \<Rightarrow> world \<Rightarrow> bool" where
  \<comment> \<open>\<^verbatim>\<open>options.enabled ?? shouldEnableTimeControl(environment)\<close>\<close>
  "requested opts w =
     (case enabled_opt opts of
        Some b \<Rightarrow> b
      | None \<Rightarrow> shouldEnableTimeControl
                 (Some (case environment_opt opts of Some e \<Rightarrow> e
                                                   | None \<Rightarrow> detectEnvironment w)) w)"

definition allowed :: "TimeControlOptions \<Rightarrow> world \<Rightarrow> bool" where
  "allowed opts w =
     shouldEnableTimeControl
       (Some (case environment_opt opts of Some e \<Rightarrow> e | None \<Rightarrow> detectEnvironment w)) w"

definition resolved_options :: "TimeControlOptions \<Rightarrow> time_arg \<Rightarrow> world \<Rightarrow> RequiredOptions" where
  \<comment> \<open>\<^verbatim>\<open>this.options\<close> as the constructor builds it, \<open>startTime\<close> being the resolved start\<close>
  "resolved_options opts startTime w =
     \<lparr>opt_enabled = requested opts w,
      opt_startTime = startTime,
      opt_hijackLibraries = (case hijackLibraries_opt opts of Some b \<Rightarrow> b | None \<Rightarrow> True),
      opt_environment =
        (case environment_opt opts of Some e \<Rightarrow> e | None \<Rightarrow> detectEnvironment w),
      opt_onTimeChange =
        (case onTimeChange_opt opts of Some f \<Rightarrow> UserFn f | None \<Rightarrow> EmptyArrow)\<rparr>"


subsection \<open>Concrete states\<close>

text \<open>
  A development page served from \<^verbatim>\<open>localhost\<close> that has loaded Moment.js and Day.js as
  globals, before any controller exists; the real time is 1700000000000.
\<close>

definition page :: world where
  "page =
     \<lparr>has_globalThis = True, has_window = True, has_document = True,
      env_signals = \<lparr>NODE_ENV = None, test_runner_marker = False,
                     hostname = ''localhost'', port = ''3000'', protocol = ''http:''\<rparr>,
      wall_clock = 1700000000000,
      Date_parse = (\<lambda>s. Invalid_Date),
      global_Date = NativeDate,
      global_moment = Some (Moment (Some NativeNow)),
      require_moment = None,
      global_dayjs = Some NativeDayjs,
      require_dayjs = None,
      fn_body = (\<lambda>f. []),
      console = [], calls = [],
      currentTime = Invalid_Date, enabled = False, subscribers = [],
      options = \<lparr>opt_enabled = False, opt_startTime = ArgNumber NaN,
                 opt_hijackLibraries = False, opt_environment = Development,
                 opt_onTimeChange = EmptyArrow\<rparr>,
      backup = None, isHijacked = False\<rparr>"

definition no_options :: TimeControlOptions where
  "no_options =
     \<lparr>enabled_opt = None, startTime_opt = None, hijackLibraries_opt = None,
      environment_opt = None, onTimeChange_opt = None\<rparr>"

definition idle_options :: TimeControlOptions where
  \<comment> \<open>\<^verbatim>\<open>{ enabled: false, startTime: 1704110400000 }\<close>, 2024-01-01T12:00:00Z\<close>
  "idle_options =
     no_options\<lparr>enabled_opt := Some False,
                startTime_opt := Some (ArgNumber (Num 1704110400000))\<rparr>"

definition idle_controller :: world where
  \<comment> \<open>the state \<^verbatim>\<open>new TimeControllerImpl(idle_options)\<close> leaves on that page\<close>
  "idle_controller =
     page\<lparr>currentTime := Time 1704110400000,
          options := \<lparr>opt_enabled = False, opt_startTime = ArgNumber (Num 1704110400000),
                       opt_hijackLibraries = True, opt_environment = Development,
                       opt_onTimeChange = EmptyArrow\<rparr>,
          console := [Info_disabled Development]\<rparr>"

definition enabled_controller :: world where
  \<comment> \<open>the state \<^verbatim>\<open>enable()\<close> leaves when called on \<open>idle_controller\<close>\<close>
  "enabled_controller =
     idle_controller\<lparr>enabled := True,
                     backup := Some NativeDate,
                     global_Date := ControlledDate NativeDate,
                     isHijacked := True,
                     global_moment := Some (Moment (Some (NowShim NativeNow (Some NativeNow)))),
                     global_dayjs := Some (DayjsShim NativeDayjs)\<rparr>"

definition production_options :: TimeControlOptions where
  \<comment> \<open>\<^verbatim>\<open>{ enabled: true, environment: 'production' }\<close>\<close>
  "production_options =
     no_options\<lparr>enabled_opt := Some True, environment_opt := Some Production\<rparr>"

definition auto_production_options :: TimeControlOptions where
  \<comment> \<open>\<^verbatim>\<open>{ environment: 'production' }\<close>\<close>
  "auto_production_options = no_options\<lparr>environment_opt := Some Production\<rparr>"

definition production_controller :: world where
  \<comment> \<open>the state \<^verbatim>\<open>new TimeControllerImpl(auto_production_options)\<close> leaves on that page\<close>
  "production_controller =
     page\<lparr>currentTime := Time 1700000000000,
          options := \<lparr>opt_enabled = False, opt_startTime = ArgDate (Time 1700000000000),
                       opt_hijackLibraries = True, opt_environment = Production,
                       opt_onTimeChange = EmptyArrow\<rparr>,
          console := [Warn_environment Production]\<rparr>"

definition two_subscribers :: world where
  \<comment> \<open>\<open>idle_controller\<close> after \<^verbatim>\<open>subscribe(f1); subscribe(f2)\<close>, where \<^verbatim>\<open>f1\<close> unsubscribes
      \<^verbatim>\<open>f2\<close> and subscribes \<^verbatim>\<open>f3\<close>\<close>
  "two_subscribers =
     idle_controller\<lparr>subscribers := [Some 1, Some 2],
                     fn_body := (\<lambda>f. if f = 1 then [CallUnsubscribe 2, CallSubscribe 3]
                                      else [])\<rparr>"

definition failing_subscriber :: world where
  \<comment> \<open>\<open>idle_controller\<close> with subscribers \<^verbatim>\<open>f1\<close>, which throws, and \<^verbatim>\<open>f2\<close>, and an
      \<^verbatim>\<open>onTimeChange\<close> callback \<^verbatim>\<open>f7\<close> that throws\<close>
  "failing_subscriber =
     idle_controller\<lparr>subscribers := [Some 1, Some 2],
                     fn_body := (\<lambda>f. if f = 1 \<or> f = 7 then [Throw] else []),
                     options := (options idle_controller)\<lparr>opt_onTimeChange := UserFn 7\<rparr>\<rparr>"

definition legacy_page :: world where
  \<comment> \<open>the same page on an engine that has no \<^verbatim>\<open>globalThis\<close>\<close>
  "legacy_page = page\<lparr>has_globalThis := False\<rparr>"

text \<open>Runs of the native install and restore operations.\<close>

datatype surface_op = Install | Restore

fun native_ops :: "surface_op list \<Rightarrow> world \<Rightarrow> world" where
  "native_ops [] w = w"
| "native_ops (Install # ops) w = native_ops ops (hijackNativeFunctions w)"
| "native_ops (Restore # ops) w = native_ops ops (restoreNativeFunctions w)"

definition require_only :: world where
  \<comment> \<open>a CommonJS host: Moment.js is reachable through \<^verbatim>\<open>require\<close> only\<close>
  "require_only = idle_controller\<lparr>global_moment := None,
                                  require_moment := Some (Moment (Some NativeNow))\<rparr>"

section \<open>Properties of the model\<close>

lemmas surface_defs = native_Date1_def this_constructor_original_def getCurrentTime_def
  Date_construct0_def new_Date_def Date_call0_def backup_DateNow_def Date_now_def
  isActive_def TimeClip_def max_time_def

lemmas hijacker_defs = hijackNativeFunctions_def restoreNativeFunctions_def find_moment_def
  put_moment_def hijackMoment_def restoreMoment_def find_dayjs_def hijackDayjs_def
  restoreDayjs_def hijackDateFns_def restoreDateFns_def hijackLibraries_def
  restoreLibraries_def TimeHijacker_isActive_def TimeHijacker_destroy_def

lemmas controller_defs = Set_add_def Set_delete_def Set_clear_def unsubscribe_def
  subscribe_def call_fn_def call_handler_def try_callback_def notifySubscribers_def
  announce_def setTime_def addTime_def addMinutes_def addHours_def addDays_def
  resetToRealTime_def enable_def disable_def merge_options_def updateOptions_def
  destroy_def resolve_startTime_def TimeControllerImpl_new_def js_scale_def

lemmas environment_defs = detectEnvironment_def shouldEnableTimeControl_def isBrowser_def
  logEnvironmentInfo_def

lemmas state_defs = page_def no_options_def idle_options_def idle_controller_def
  enabled_controller_def production_options_def auto_production_options_def
  production_controller_def
  two_subscribers_def failing_subscriber_def legacy_page_def

subsection \<open>The shimmed constructor\<close>

lemma constructor_prop_native: "constructor_prop p = NativeDate"
  by (cases p) simp

lemma this_constructor_original_None: "this_constructor_original f = None"
  by (simp add: this_constructor_original_def constructor_prop_native)

lemma Date_construct1_ControlledDate: "Date_construct1 (ControlledDate b) a w = Inl TypeError"
  by (simp add: this_constructor_original_None)

lemma Date_construct1_error: "Date_construct1 f a w = Inl e \<Longrightarrow> e = TypeError"
  by (cases f) (simp_all add: this_constructor_original_None)

lemma getCurrentTime_error: "getCurrentTime w = Inl e \<Longrightarrow> e = TypeError"
  unfolding getCurrentTime_def by (rule Date_construct1_error)

lemma getCurrentTime_native:
  "global_Date w = NativeDate \<Longrightarrow> getCurrentTime w = Inr (TimeClip (getTime (currentTime w)))"
  by (simp add: getCurrentTime_def native_Date1_def)

lemma getCurrentTime_hijacked:
  "global_Date w = ControlledDate b \<Longrightarrow> getCurrentTime w = Inl TypeError"
  by (simp add: getCurrentTime_def this_constructor_original_None)

lemma getCurrentTime_cong:
  "global_Date w' = global_Date w \<Longrightarrow> currentTime w' = currentTime w
   \<Longrightarrow> getCurrentTime w' = getCurrentTime w"
  by (cases "global_Date w")
     (simp_all add: getCurrentTime_def native_Date1_def this_constructor_original_None)

lemma new_Date_hijacked: "global_Date w = ControlledDate b \<Longrightarrow> new_Date args w = Inl TypeError"
  by (cases args)
     (simp_all add: new_Date_def Date_construct0_def getCurrentTime_hijacked
        this_constructor_original_None)

lemma new_Date_native:
  "global_Date w = NativeDate \<Longrightarrow>
   new_Date args w = Inr (case args of None \<Rightarrow> Time (wall_clock w) | Some a \<Rightarrow> native_Date1 a w)"
  by (cases args) (simp_all add: new_Date_def Date_construct0_def)

lemma new_Date_error: "new_Date args w = Inl e \<Longrightarrow> e = TypeError"
  by (cases "global_Date w") (simp_all add: new_Date_native new_Date_hijacked)

subsection \<open>What a notification round can change\<close>

lemma untouched_refl: "untouched w w"
  by (simp add: untouched_def)

lemma untouched_trans:
  assumes "untouched w w1" and "untouched w1 w2"
  shows "untouched w w2"
proof -
  have a: "w1 = w\<lparr>subscribers := subscribers w1, calls := calls w1, console := console w1\<rparr>"
    using assms(1) by (simp add: untouched_def)
  have b: "w2 = w1\<lparr>subscribers := subscribers w2, calls := calls w2, console := console w2\<rparr>"
    using assms(2) by (simp add: untouched_def)
  have "w1\<lparr>subscribers := subscribers w2, calls := calls w2, console := console w2\<rparr>
        = w\<lparr>subscribers := subscribers w2, calls := calls w2, console := console w2\<rparr>"
    by (subst a) simp
  with b show ?thesis by (simp add: untouched_def)
qed

lemma untouched_fields:
  assumes "untouched w w'"
  shows "enabled w' = enabled w" and "options w' = options w"
    and "global_Date w' = global_Date w" and "currentTime w' = currentTime w"
    and "fn_body w' = fn_body w" and "backup w' = backup w"
    and "isHijacked w' = isHijacked w" and "wall_clock w' = wall_clock w"
    and "global_moment w' = global_moment w" and "global_dayjs w' = global_dayjs w"
proof -
  have eq: "w' = w\<lparr>subscribers := subscribers w', calls := calls w', console := console w'\<rparr>"
    using assms by (simp add: untouched_def)
  show "enabled w' = enabled w" using arg_cong [OF eq, of enabled] by simp
  show "options w' = options w" using arg_cong [OF eq, of options] by simp
  show "global_Date w' = global_Date w" using arg_cong [OF eq, of global_Date] by simp
  show "currentTime w' = currentTime w" using arg_cong [OF eq, of currentTime] by simp
  show "fn_body w' = fn_body w" using arg_cong [OF eq, of fn_body] by simp
  show "backup w' = backup w" using arg_cong [OF eq, of backup] by simp
  show "isHijacked w' = isHijacked w" using arg_cong [OF eq, of isHijacked] by simp
  show "wall_clock w' = wall_clock w" using arg_cong [OF eq, of wall_clock] by simp
  show "global_moment w' = global_moment w" using arg_cong [OF eq, of global_moment] by simp
  show "global_dayjs w' = global_dayjs w" using arg_cong [OF eq, of global_dayjs] by simp
qed

lemma run_actions_untouched: "untouched w (snd (run_actions f as w))"
proof (induction as arbitrary: w)
  case Nil
  show ?case by (simp add: untouched_def)
next
  case (Cons a as)
  show ?case
  proof (cases a)
    case Throw
    then show ?thesis by (simp add: untouched_def)
  next
    case (CallSubscribe g)
    have "untouched w (snd (subscribe (Fn g) w))"
      by (simp add: untouched_def subscribe_def)
    then show ?thesis using Cons.IH CallSubscribe untouched_trans by auto
  next
    case (CallUnsubscribe g)
    have "untouched w (unsubscribe g w)"
      by (simp add: untouched_def unsubscribe_def)
    then show ?thesis using Cons.IH CallUnsubscribe untouched_trans by auto
  qed
qed

lemma call_fn_untouched: "untouched w (snd (call_fn f d w))"
proof -
  have "untouched w (w\<lparr>calls := calls w @ [(f, d)]\<rparr>)"
    by (simp add: untouched_def)
  then show ?thesis
    unfolding call_fn_def using run_actions_untouched untouched_trans by blast
qed

lemma call_handler_untouched: "untouched w (snd (call_handler h d w))"
  by (cases h) (simp_all add: call_handler_def untouched_refl call_fn_untouched)

lemma try_callback_untouched: "untouched w (try_callback cb t w)"
proof -
  obtain r w1 where c: "call_fn cb t w = (r, w1)" by (cases "call_fn cb t w")
  then have u: "untouched w w1" using call_fn_untouched [of w cb t] by simp
  have "untouched w1 (w1\<lparr>console := console w1 @ [Error_in_subscriber_callback e]\<rparr>)" for e
    by (simp add: untouched_def)
  with u c show ?thesis
    by (cases r) (auto simp: try_callback_def intro: untouched_trans)
qed

lemma forEach_untouched:
  assumes "forEach i t w = Some w'"
  shows "untouched w w'"
proof (rule forEach.raw_induct [where P = "\<lambda>i t w w'. untouched w w'", OF _ assms])
  fix loop index t w w'
  assume IH: "\<And>i t w w'. loop i t w = Some w' \<Longrightarrow> untouched w w'"
    and step: "(if index < length (subscribers w) then
        (case subscribers w ! index of
           None \<Rightarrow> loop (Suc index) t w
         | Some cb \<Rightarrow> loop (Suc index) t (try_callback cb t w))
      else Some w) = Some w'"
  show "untouched w w'"
  proof (cases "index < length (subscribers w)")
    case False
    with step show ?thesis by (simp add: untouched_refl)
  next
    case True
    show ?thesis
    proof (cases "subscribers w ! index")
      case None
      with True step IH show ?thesis by simp
    next
      case (Some cb)
      with True step have "loop (Suc index) t (try_callback cb t w) = Some w'" by simp
      then have "untouched (try_callback cb t w) w'" by (rule IH)
      then show ?thesis using try_callback_untouched untouched_trans by blast
    qed
  qed
qed

lemma notifySubscribers_untouched:
  "notifySubscribers w = Some (r, w') \<Longrightarrow> untouched w w'"
  by (auto simp: notifySubscribers_def untouched_refl forEach_untouched
        split: sum.splits option.splits)

lemma notifySubscribers_result:
  "notifySubscribers w = Some (r, w') \<Longrightarrow> r = Inr () \<or> r = Inl TypeError"
  by (auto simp: notifySubscribers_def dest: getCurrentTime_error
        split: sum.splits option.splits)

lemma announce_untouched:
  assumes "announce w = Some (r, w')"
  shows "untouched w w'"
proof (cases "notifySubscribers w")
  case None
  with assms show ?thesis by (simp add: announce_def)
next
  case (Some p)
  obtain r1 w1 where p: "p = (r1, w1)" by (cases p)
  have u1: "untouched w w1" using Some p notifySubscribers_untouched by blast
  show ?thesis
  proof (cases r1)
    case (Inl e)
    with assms Some p u1 show ?thesis by (simp add: announce_def)
  next
    case (Inr u)
    show ?thesis
    proof (cases "getCurrentTime w1")
      case (Inl e)
      with assms Some p Inr u1 show ?thesis by (simp add: announce_def)
    next
      case r: (Inr t)
      with assms Some p Inr
      have "w' = snd (call_handler (opt_onTimeChange (options w1)) t w1)"
        by (auto simp: announce_def)
      then show ?thesis using u1 call_handler_untouched untouched_trans by blast
    qed
  qed
qed

subsection \<open>Rounds that end\<close>

lemma never_subscribes_untouched:
  "untouched w w' \<Longrightarrow> never_subscribes w' = never_subscribes w"
  by (simp add: never_subscribes_def untouched_fields(5))

lemma run_actions_length:
  "\<forall>g. CallSubscribe g \<notin> set as \<Longrightarrow>
   length (subscribers (snd (run_actions f as w))) = length (subscribers w)"
proof (induction as arbitrary: w)
  case Nil
  show ?case by simp
next
  case (Cons a as)
  then show ?case
    by (cases a) (auto simp: unsubscribe_def Set_delete_def)
qed

lemma try_callback_length:
  assumes "never_subscribes w"
  shows "length (subscribers (try_callback cb t w)) = length (subscribers w)"
proof -
  have n: "\<forall>g. CallSubscribe g \<notin> set (fn_body w cb)"
    using assms by (simp add: never_subscribes_def)
  have "length (subscribers (snd (call_fn cb t w))) = length (subscribers w)"
    unfolding call_fn_def using run_actions_length [OF n] by simp
  then show ?thesis
    by (cases "call_fn cb t w") (auto simp: try_callback_def split: sum.splits)
qed

lemma forEach_total:
  "never_subscribes w \<Longrightarrow> \<exists>w'. forEach i t w = Some w'"
proof (induction "length (subscribers w) - i" arbitrary: i w)
  case 0
  then have "\<not> i < length (subscribers w)" by simp
  then show ?case by (subst forEach.simps) simp
next
  case (Suc n)
  then have lt: "i < length (subscribers w)" by simp
  show ?case
  proof (cases "subscribers w ! i")
    case None
    have "n = length (subscribers w) - Suc i" using Suc.hyps(2) by simp
    from Suc.hyps(1) [OF this Suc.prems] obtain w' where "forEach (Suc i) t w = Some w'" ..
    with lt None show ?thesis by (subst forEach.simps) simp
  next
    case (Some cb)
    let ?w1 = "try_callback cb t w"
    have len: "length (subscribers ?w1) = length (subscribers w)"
      using Suc.prems by (rule try_callback_length)
    have ns: "never_subscribes ?w1"
      using Suc.prems never_subscribes_untouched [OF try_callback_untouched] by simp
    have "n = length (subscribers ?w1) - Suc i" using Suc.hyps(2) len by simp
    from Suc.hyps(1) [OF this ns] obtain w' where "forEach (Suc i) t ?w1 = Some w'" ..
    with lt Some show ?thesis by (subst forEach.simps) simp
  qed
qed

lemma notifySubscribers_total:
  assumes "never_subscribes w"
  shows "\<exists>r w'. notifySubscribers w = Some (r, w')"
proof (cases "getCurrentTime w")
  case (Inl e)
  then show ?thesis by (simp add: notifySubscribers_def)
next
  case (Inr t)
  obtain w' where "forEach 0 t w = Some w'" using forEach_total [OF assms] by blast
  with Inr show ?thesis by (simp add: notifySubscribers_def)
qed

lemma announce_total:
  assumes "never_subscribes w"
  shows "\<exists>r w'. announce w = Some (r, w')"
proof -
  obtain r1 w1 where n: "notifySubscribers w = Some (r1, w1)"
    using notifySubscribers_total [OF assms] by blast
  show ?thesis
  proof (cases r1)
    case (Inl e)
    with n show ?thesis by (simp add: announce_def)
  next
    case (Inr u)
    show ?thesis
    proof (cases "getCurrentTime w1")
      case (Inl e)
      with n Inr show ?thesis by (simp add: announce_def)
    next
      case r: (Inr t)
      obtain r2 w2 where "call_handler (opt_onTimeChange (options w1)) t w1 = (r2, w2)"
        by (cases "call_handler (opt_onTimeChange (options w1)) t w1")
      with n Inr r show ?thesis by (simp add: announce_def)
    qed
  qed
qed

subsection \<open>Installing and restoring\<close>

lemma idle_controller_constructed:
  "TimeControllerImpl_new idle_options page = Some (Inr (), idle_controller)"
  by (simp add: state_defs surface_defs hijacker_defs controller_defs environment_defs
        forEach.simps)

lemma enabled_controller_reached:
  "enable idle_controller = Some (Inl TypeError, enabled_controller)"
  by (simp add: state_defs surface_defs hijacker_defs controller_defs environment_defs
        forEach.simps)

lemma hijackNativeFunctions_twice:
  "hijackNativeFunctions (hijackNativeFunctions w) = hijackNativeFunctions w"
  by (simp add: hijackNativeFunctions_def)

lemma native_install_restore:
  "\<not> isHijacked w \<Longrightarrow> global_Date (restoreNativeFunctions (hijackNativeFunctions w)) = global_Date w"
  by (simp add: hijackNativeFunctions_def restoreNativeFunctions_def)

lemma native_ops_invariant:
  assumes "if isHijacked w then backup w = Some d else global_Date w = d"
  shows "if isHijacked (native_ops ops w) then backup (native_ops ops w) = Some d
         else global_Date (native_ops ops w) = d"
  using assms
proof (induction ops arbitrary: w)
  case Nil
  then show ?case by simp
next
  case (Cons op ops)
  show ?case
  proof (cases op)
    case Install
    have "if isHijacked (hijackNativeFunctions w) then backup (hijackNativeFunctions w) = Some d
          else global_Date (hijackNativeFunctions w) = d"
      using Cons.prems by (auto simp: hijackNativeFunctions_def)
    from Cons.IH [OF this] Install show ?thesis by simp
  next
    case Restore
    have "if isHijacked (restoreNativeFunctions w) then backup (restoreNativeFunctions w) = Some d
          else global_Date (restoreNativeFunctions w) = d"
      using Cons.prems by (auto simp: restoreNativeFunctions_def split: option.splits)
    from Cons.IH [OF this] Restore show ?thesis by simp
  qed
qed

lemma native_ops_has_globalThis: "has_globalThis (native_ops ops w) = has_globalThis w"
proof (induction ops arbitrary: w)
  case Nil
  show ?case by simp
next
  case (Cons op ops)
  then show ?case
    by (cases op)
       (simp_all add: hijackNativeFunctions_def restoreNativeFunctions_def split: option.splits)
qed

lemma native_surface_restored:
  assumes "\<not> isHijacked w" and "has_globalThis w"
  shows "global_Date (restoreNativeFunctions (native_ops ops w)) = global_Date w"
proof -
  let ?w' = "native_ops ops w"
  have "if isHijacked ?w' then backup ?w' = Some (global_Date w)
        else global_Date ?w' = global_Date w"
    using assms(1) by (intro native_ops_invariant) simp
  then show ?thesis
    using assms(2) native_ops_has_globalThis [of ops w]
    by (auto simp: restoreNativeFunctions_def split: if_splits)
qed

lemma moment_install_restore:
  assumes "has_globalThis w" and "global_moment w = Some (Moment (Some f))"
    and "now___original f = None"
  shows "global_moment (restoreMoment (hijackMoment w)) = global_moment w"
proof -
  have "delete___original f = f" using assms(3) by (cases f) simp_all
  then show ?thesis
    using assms by (simp add: hijackMoment_def restoreMoment_def find_moment_def put_moment_def)
qed

lemma dayjs_install_restore:
  assumes "has_globalThis w" and "global_dayjs w = Some d"
  shows "global_dayjs (restoreDayjs (hijackDayjs w)) = global_dayjs w"
  using assms by (simp add: hijackDayjs_def restoreDayjs_def find_dayjs_def)

lemma moment_by_require_is_never_restored:
  "require_moment (restoreLibraries (hijackLibraries require_only))
     = Some (Moment (Some (NowShim NativeNow (Some NativeNow))))
   \<and> require_moment require_only = Some (Moment (Some NativeNow))"
  by (simp add: require_only_def state_defs hijacker_defs)

text \<open>
  C2. Installing twice and restoring once must return the time surface to its pristine
  state, for the native surface and for each library integration. The native surface does
  (\<open>native_surface_restored\<close>); the library integrations have no guard against a second
  install. On a page with Moment.js and Day.js as globals, two calls of
  \<^verbatim>\<open>hijackLibraries\<close> and one of \<^verbatim>\<open>restoreLibraries\<close> leave \<^verbatim>\<open>moment.now\<close> bound to the first
  shim, its \<^verbatim>\<open>__original\<close> deleted, and \<^verbatim>\<open>dayjs\<close> bound to the first shim.
\<close>

theorem C2_second_library_install_is_not_undone:
  "global_moment idle_controller = Some (Moment (Some NativeNow))
   \<and> global_moment (restoreLibraries (hijackLibraries (hijackLibraries idle_controller)))
       = Some (Moment (Some (NowShim NativeNow None)))
   \<and> global_dayjs idle_controller = Some NativeDayjs
   \<and> global_dayjs (restoreLibraries (hijackLibraries (hijackLibraries idle_controller)))
       = Some (DayjsShim NativeDayjs)"
  by (simp add: state_defs hijacker_defs)

subsection \<open>Calls through the shims\<close>

lemma Date_construct0_ignores_activation:
  "Date_construct0 f (w\<lparr>enabled := b\<rparr>) = Date_construct0 f w"
  by (cases f; cases "global_Date w")
     (simp_all add: Date_construct0_def getCurrentTime_def native_Date1_def
        this_constructor_original_None)

lemma Date_call0_ignores_activation:
  "Date_call0 f (w\<lparr>enabled := b\<rparr>) = Date_call0 f w"
  by (cases f; cases "global_Date w")
     (simp_all add: Date_call0_def getCurrentTime_def native_Date1_def
        this_constructor_original_None)

lemma Date_now_transparent:
  "\<not> isActive w \<Longrightarrow> backup w = Some NativeDate \<Longrightarrow>
   Date_now (ControlledDate b) w = Date_now NativeDate w"
  by (simp add: Date_now_def backup_DateNow_def)

lemma now_call_transparent:
  "\<not> isActive w \<Longrightarrow> now_call (NowShim original p) w = now_call original w"
  by simp

lemma dayjs_call_transparent:
  "\<not> isActive w \<Longrightarrow> dayjs_call (DayjsShim original) args w = dayjs_call original args w"
  by simp

text \<open>
  C3. With the shims installed and the controller Disabled, every intercepted call must
  return what the original binding returns. \<^verbatim>\<open>Date.now()\<close>, \<^verbatim>\<open>moment.now()\<close> and \<^verbatim>\<open>dayjs()\<close>
  do (the three lemmas above). The zero-argument branches of \<^verbatim>\<open>ControlledDate\<close> never test
  \<^verbatim>\<open>isActive()\<close>: they go to \<^verbatim>\<open>timeController.getCurrentTime()\<close> whatever the activation
  state. After \<^verbatim>\<open>hijackNativeFunctions()\<close> on the Disabled \<open>idle_controller\<close>, \<^verbatim>\<open>new Date()\<close>
  and \<^verbatim>\<open>Date()\<close> do not return the real time the original returns; the controller's own
  \<^verbatim>\<open>new Date(ms)\<close> re-enters the shim, where \<^verbatim>\<open>this.constructor.original\<close> is undefined.
\<close>

theorem C3_zero_argument_Date_is_not_transparent:
  "\<not> isActive (hijackNativeFunctions idle_controller)
   \<and> isHijacked (hijackNativeFunctions idle_controller)
   \<and> new_Date None (hijackNativeFunctions idle_controller) = Inl TypeError
   \<and> Date_construct0 NativeDate (hijackNativeFunctions idle_controller)
       = Inr (Time 1700000000000)
   \<and> Date_call0 (global_Date (hijackNativeFunctions idle_controller))
        (hijackNativeFunctions idle_controller) = Inl TypeError
   \<and> Date_call0 NativeDate (hijackNativeFunctions idle_controller)
       = Inr (DateString (Time 1700000000000))"
  by (simp add: state_defs surface_defs hijacker_defs)

subsection \<open>Durations\<close>

lemma addTime_NaN: "addTime NaN w = Some (Inl InvalidMilliseconds, w)"
  by (simp add: addTime_def)

lemma announce_result:
  assumes "announce w = Some (r, w')"
  shows "r = Inr () \<or> r = Inl TypeError \<or> (\<exists>g. r = Inl (Thrown g))"
proof -
  have ra: "fst (run_actions f as v) = Inr () \<or> fst (run_actions f as v) = Inl (Thrown f)"
    for f as v
  proof (induction as arbitrary: v)
    case Nil
    show ?case by simp
  next
    case (Cons a as)
    then show ?case by (cases a) simp_all
  qed
  have ch: "fst (call_handler h d v) = Inr () \<or> (\<exists>g. fst (call_handler h d v) = Inl (Thrown g))"
    for h d v
    using ra by (cases h) (auto simp: call_handler_def call_fn_def)
  show ?thesis
  proof (cases "notifySubscribers w")
    case None
    with assms show ?thesis by (simp add: announce_def)
  next
    case (Some p)
    obtain r1 w1 where p: "p = (r1, w1)" by (cases p)
    show ?thesis
    proof (cases r1)
      case (Inl e)
      with assms Some p notifySubscribers_result [of w r1 w1] show ?thesis
        by (auto simp: announce_def)
    next
      case (Inr u)
      show ?thesis
      proof (cases "getCurrentTime w1")
        case (Inl e)
        with assms Some p Inr getCurrentTime_error [of w1 e] show ?thesis
          by (auto simp: announce_def)
      next
        case t: (Inr t)
        with assms Some p Inr
        have "r = fst (call_handler (opt_onTimeChange (options w1)) t w1)"
          by (auto simp: announce_def)
        with ch show ?thesis by metis
      qed
    qed
  qed
qed

lemma addTime_throws_InvalidMilliseconds_iff:
  "addTime ms w = Some (Inl InvalidMilliseconds, w') \<longleftrightarrow> ms = NaN \<and> w' = w"
proof (cases "ms = NaN")
  case True
  then show ?thesis by (auto simp: addTime_def)
next
  case False
  then have n: "\<not> isNaN ms" by (cases ms) simp_all
  have "addTime ms w \<noteq> Some (Inl InvalidMilliseconds, w')"
  proof
    assume a: "addTime ms w = Some (Inl InvalidMilliseconds, w')"
    show False
    proof (cases "new_Date (Some (ArgNumber (js_add (getTime (currentTime w)) ms))) w")
      case (Inl e)
      with a n new_Date_error [OF Inl] show False by (simp add: addTime_def)
    next
      case (Inr d)
      with a n have "announce (w\<lparr>currentTime := d\<rparr>) = Some (Inl InvalidMilliseconds, w')"
        by (simp add: addTime_def)
      from announce_result [OF this] show False by auto
    qed
  qed
  with False show ?thesis by simp
qed

text \<open>
  C5. \<^verbatim>\<open>addTime\<close> must throw for every duration that is not a finite number. Its guard is
  \<^verbatim>\<open>isNaN(milliseconds)\<close>: it throws for NaN and for nothing else
  (\<open>addTime_throws_InvalidMilliseconds_iff\<close>). \<^verbatim>\<open>addTime(Infinity)\<close> and
  \<^verbatim>\<open>addTime(-Infinity)\<close> on \<open>idle_controller\<close> return normally and leave the controller
  holding an Invalid Date.
\<close>

theorem C5_addTime_accepts_Infinity:
  "addTime PosInfinity idle_controller
     = Some (Inr (), idle_controller\<lparr>currentTime := Invalid_Date\<rparr>)
   \<and> addTime NegInfinity idle_controller
     = Some (Inr (), idle_controller\<lparr>currentTime := Invalid_Date\<rparr>)
   \<and> currentTime idle_controller = Time 1704110400000"
  by (simp add: state_defs surface_defs controller_defs forEach.simps)

subsection \<open>Back to the real time\<close>

lemma resetToRealTime_native:
  "global_Date w = NativeDate \<Longrightarrow>
   resetToRealTime w = setTime (ArgDate (Time (wall_clock w))) w"
  by (simp add: resetToRealTime_def new_Date_native)

lemma resetToRealTime_hijacked:
  "global_Date w = ControlledDate b \<Longrightarrow> resetToRealTime w = Some (Inl TypeError, w)"
  by (simp add: resetToRealTime_def new_Date_hijacked)

text \<open>
  C6. After \<^verbatim>\<open>resetToRealTime()\<close> the virtual instant must be the real time, also when the
  controller is Enabled and \<^verbatim>\<open>Date\<close> is intercepted. The method reads \<^verbatim>\<open>new Date()\<close>
  through the global binding, which is then the shim: on \<open>enabled_controller\<close> (what
  \<^verbatim>\<open>enable()\<close> leaves of \<open>idle_controller\<close>) the call never reaches the real clock and the
  instant stays 1704110400000 while the real time is 1700000000000.
\<close>

theorem C6_resetToRealTime_under_interception:
  "enable idle_controller = Some (Inl TypeError, enabled_controller)
   \<and> isActive enabled_controller
   \<and> isHijacked enabled_controller
   \<and> resetToRealTime enabled_controller = Some (Inl TypeError, enabled_controller)
   \<and> currentTime enabled_controller = Time 1704110400000
   \<and> wall_clock enabled_controller = 1700000000000"
  by (simp add: state_defs surface_defs hijacker_defs controller_defs environment_defs
        forEach.simps)

subsection \<open>Rounds in which no callback changes the membership\<close>

lemma run_actions_result:
  "fst (run_actions f as v) = Inr () \<or> fst (run_actions f as v) = Inl (Thrown f)"
proof (induction as arbitrary: v)
  case Nil
  show ?case by simp
next
  case (Cons a as)
  then show ?case by (cases a) simp_all
qed

lemma run_actions_calls: "calls (snd (run_actions f as v)) = calls v"
proof (induction as arbitrary: v)
  case Nil
  show ?case by simp
next
  case (Cons a as)
  then show ?case by (cases a) (simp_all add: subscribe_def unsubscribe_def)
qed

lemma run_actions_throws:
  "Throw \<in> set as \<Longrightarrow> fst (run_actions f as v) = Inl (Thrown f)"
proof (induction as arbitrary: v)
  case Nil
  then show ?case by simp
next
  case (Cons a as)
  then show ?case by (cases a) auto
qed

lemma call_fn_throws: "throws w f \<Longrightarrow> fst (call_fn f d w) = Inl (Thrown f)"
  by (simp add: call_fn_def throws_def run_actions_throws)

lemma call_fn_calls: "calls (snd (call_fn f d w)) = calls w @ [(f, d)]"
  by (simp add: call_fn_def run_actions_calls)

lemma call_handler_Thrown:
  assumes "fst (call_handler h d v) = Inl (Thrown g)"
  shows "h = UserFn g"
proof (cases h)
  case EmptyArrow
  with assms show ?thesis by (simp add: call_handler_def)
next
  case (UserFn x)
  with assms have "fst (run_actions x (fn_body v x) (v\<lparr>calls := calls v @ [(x, d)]\<rparr>))
                   = Inl (Thrown g)"
    by (simp add: call_handler_def call_fn_def)
  with run_actions_result [of x "fn_body v x" "v\<lparr>calls := calls v @ [(x, d)]\<rparr>"]
  have "x = g" by simp
  with UserFn show ?thesis by simp
qed

lemma run_actions_only_throw:
  "list_all (\<lambda>a. a = Throw) as \<Longrightarrow>
   run_actions f as v = (if as = [] then Inr () else Inl (Thrown f), v)"
  by (cases as) auto

lemma try_callback_quiet:
  assumes "list_all (\<lambda>a. a = Throw) (fn_body w cb)"
  shows "try_callback cb t w =
           w\<lparr>calls := calls w @ [(cb, t)],
             console := console w @ (if throws w cb
                                     then [Error_in_subscriber_callback (Thrown cb)] else [])\<rparr>"
proof -
  have "throws w cb \<longleftrightarrow> fn_body w cb \<noteq> []"
    using assms by (cases "fn_body w cb") (auto simp: throws_def)
  then show ?thesis
    using run_actions_only_throw [OF assms]
    by (simp add: try_callback_def call_fn_def)
qed

lemma forEach_quiet:
  assumes "quiet_round w"
  shows "\<exists>w'. forEach i t w = Some w' \<and> subscribers w' = subscribers w
           \<and> calls w' = calls w @ map (\<lambda>cb. (cb, t)) (Set_members (drop i (subscribers w)))
           \<and> console w' = console w
               @ map (\<lambda>cb. Error_in_subscriber_callback (Thrown cb))
                   (filter (throws w) (Set_members (drop i (subscribers w))))"
  using assms
proof (induction "length (subscribers w) - i" arbitrary: i w)
  case 0
  then have "\<not> i < length (subscribers w)" by simp
  then show ?case by (subst forEach.simps) simp
next
  case (Suc n)
  then have lt: "i < length (subscribers w)" by simp
  have dr: "drop i (subscribers w) = subscribers w ! i # drop (Suc i) (subscribers w)"
    using lt by (simp add: Cons_nth_drop_Suc)
  show ?case
  proof (cases "subscribers w ! i")
    case None
    have "n = length (subscribers w) - Suc i" using Suc.hyps(2) by simp
    from Suc.hyps(1) [OF this Suc.prems] obtain w' where
      "forEach (Suc i) t w = Some w'" "subscribers w' = subscribers w"
      "calls w' = calls w @ map (\<lambda>cb. (cb, t)) (Set_members (drop (Suc i) (subscribers w)))"
      "console w' = console w
         @ map (\<lambda>cb. Error_in_subscriber_callback (Thrown cb))
             (filter (throws w) (Set_members (drop (Suc i) (subscribers w))))"
      by blast
    with lt None dr show ?thesis by (subst forEach.simps) simp
  next
    case (Some cb)
    let ?w1 = "try_callback cb t w"
    have "Some cb \<in> set (subscribers w)" using lt Some nth_mem by metis
    then have q: "list_all (\<lambda>a. a = Throw) (fn_body w cb)"
      using Suc.prems by (auto simp: quiet_round_def list_all_iff)
    note w1 = try_callback_quiet [OF q, of t]
    have s1: "subscribers ?w1 = subscribers w" and f1: "fn_body ?w1 = fn_body w"
      by (simp_all add: w1)
    have q1: "quiet_round ?w1"
      using Suc.prems unfolding quiet_round_def s1 f1 .
    have th1: "throws ?w1 = throws w"
      by (rule ext) (simp add: throws_def f1)
    have "n = length (subscribers ?w1) - Suc i" using Suc.hyps(2) s1 by simp
    from Suc.hyps(1) [OF this q1] obtain w' where
      "forEach (Suc i) t ?w1 = Some w'" "subscribers w' = subscribers ?w1"
      "calls w' = calls ?w1 @ map (\<lambda>cb. (cb, t)) (Set_members (drop (Suc i) (subscribers ?w1)))"
      "console w' = console ?w1
         @ map (\<lambda>cb. Error_in_subscriber_callback (Thrown cb))
             (filter (throws ?w1) (Set_members (drop (Suc i) (subscribers ?w1))))"
      by blast
    with lt Some dr s1 th1 show ?thesis
      by (subst forEach.simps) (simp add: w1)
  qed
qed

lemma notifySubscribers_quiet:
  assumes "quiet_round w" and "getCurrentTime w = Inr t"
  shows "\<exists>w'. notifySubscribers w = Some (Inr (), w') \<and> subscribers w' = subscribers w
           \<and> calls w' = calls w @ map (\<lambda>cb. (cb, t)) (Set_members (subscribers w))
           \<and> console w' = console w
               @ map (\<lambda>cb. Error_in_subscriber_callback (Thrown cb))
                   (filter (throws w) (Set_members (subscribers w)))"
  using forEach_quiet [OF assms(1), of 0 t] assms(2)
  by (auto simp: notifySubscribers_def)

subsection \<open>Rounds in which a callback changes the membership\<close>








lemma run_actions_subscribers_grow:
  "length (subscribers v) \<le> length (subscribers (snd (run_actions f as v)))"
proof (induction as arbitrary: v)
  case Nil
  show ?case by simp
next
  case (Cons a as)
  show ?case
  proof (cases a)
    case Throw
    then show ?thesis by simp
  next
    case (CallSubscribe g)
    have "length (subscribers v) \<le> length (subscribers (snd (subscribe (Fn g) v)))"
      by (simp add: subscribe_def Set_add_def)
    with Cons.IH [of "snd (subscribe (Fn g) v)"] CallSubscribe show ?thesis by simp
  next
    case (CallUnsubscribe g)
    have "length (subscribers v) \<le> length (subscribers (unsubscribe g v))"
      by (simp add: unsubscribe_def Set_delete_def)
    with Cons.IH [of "unsubscribe g v"] CallUnsubscribe show ?thesis by simp
  qed
qed














subsection \<open>Exceptions of callbacks\<close>

lemma announce_Thrown:
  assumes "announce w = Some (Inl (Thrown g), w')"
  shows "opt_onTimeChange (options w) = UserFn g"
proof (cases "notifySubscribers w")
  case None
  with assms show ?thesis by (simp add: announce_def)
next
  case (Some p)
  obtain r1 w1 where p: "p = (r1, w1)" by (cases p)
  have o: "options w1 = options w"
    using Some p notifySubscribers_untouched untouched_fields(2) by blast
  show ?thesis
  proof (cases r1)
    case (Inl e)
    with assms Some p notifySubscribers_result [of w r1 w1] show ?thesis
      by (auto simp: announce_def)
  next
    case (Inr u)
    show ?thesis
    proof (cases "getCurrentTime w1")
      case (Inl e)
      with assms Some p Inr getCurrentTime_error [of w1 e] show ?thesis
        by (auto simp: announce_def)
    next
      case t: (Inr t)
      with assms Some p Inr
      have "fst (call_handler (opt_onTimeChange (options w1)) t w1) = Inl (Thrown g)"
        by (auto simp: announce_def split: prod.splits)
      from call_handler_Thrown [OF this] o show ?thesis by simp
    qed
  qed
qed

lemma setTime_Thrown:
  assumes "setTime a w = Some (Inl (Thrown g), w')"
  shows "opt_onTimeChange (options w) = UserFn g"
proof (cases "new_Date (Some a) w")
  case (Inl e)
  with assms new_Date_error [OF Inl] show ?thesis by (simp add: setTime_def)
next
  case (Inr d)
  with assms have "announce (w\<lparr>currentTime := d\<rparr>) = Some (Inl (Thrown g), w')"
    by (simp add: setTime_def split: if_splits)
  from announce_Thrown [OF this] show ?thesis by simp
qed

lemma addTime_Thrown:
  assumes "addTime ms w = Some (Inl (Thrown g), w')"
  shows "opt_onTimeChange (options w) = UserFn g"
proof (cases "new_Date (Some (ArgNumber (js_add (getTime (currentTime w)) ms))) w")
  case (Inl e)
  with assms new_Date_error [OF Inl] show ?thesis by (simp add: addTime_def split: if_splits)
next
  case (Inr d)
  with assms have "announce (w\<lparr>currentTime := d\<rparr>) = Some (Inl (Thrown g), w')"
    by (simp add: addTime_def split: if_splits)
  from announce_Thrown [OF this] show ?thesis by simp
qed

lemma enable_not_Thrown: "enable w \<noteq> Some (Inl (Thrown g), w')"
proof
  assume a: "enable w = Some (Inl (Thrown g), w')"
  then obtain v where "notifySubscribers v = Some (Inl (Thrown g), w')"
    by (auto simp: enable_def Let_def split: if_splits)
  from notifySubscribers_result [OF this] show False by simp
qed

lemma disable_not_Thrown: "disable w \<noteq> Some (Inl (Thrown g), w')"
proof
  assume a: "disable w = Some (Inl (Thrown g), w')"
  then obtain v where "notifySubscribers v = Some (Inl (Thrown g), w')"
    by (auto simp: disable_def split: if_splits)
  from notifySubscribers_result [OF this] show False by simp
qed

text \<open>
  C9. An exception thrown by a subscriber during a notification round is caught and
  logged. In a round whose callbacks return or throw, every member of the set is called
  with the instant, the ones after a throwing callback included, each exception is written
  to the console, and the round returns normally. No exception of a subscriber reaches the
  caller of \<^verbatim>\<open>setTime\<close>, \<^verbatim>\<open>addTime\<close>, \<^verbatim>\<open>enable\<close> or \<^verbatim>\<open>disable\<close>: the only user exception
  \<^verbatim>\<open>setTime\<close> and \<^verbatim>\<open>addTime\<close> can end with is the one thrown by the \<^verbatim>\<open>onTimeChange\<close> callback,
  and \<^verbatim>\<open>enable\<close> and \<^verbatim>\<open>disable\<close> end with none.
\<close>

theorem C9_subscriber_exceptions_are_contained:
  "(quiet_round w \<and> getCurrentTime w = Inr t \<longrightarrow>
      (\<exists>w'. notifySubscribers w = Some (Inr (), w'))
      \<and> round_calls w = Some (map (\<lambda>cb. (cb, t)) (Set_members (subscribers w)))
      \<and> round_errors w = Some (map (\<lambda>cb. Error_in_subscriber_callback (Thrown cb))
                                 (filter (throws w) (Set_members (subscribers w)))))
   \<and> (setTime a w = Some (Inl (Thrown g), w') \<longrightarrow> opt_onTimeChange (options w) = UserFn g)
   \<and> (addTime ms w = Some (Inl (Thrown g), w') \<longrightarrow> opt_onTimeChange (options w) = UserFn g)
   \<and> enable w \<noteq> Some (Inl (Thrown g), w')
   \<and> disable w \<noteq> Some (Inl (Thrown g), w')"
proof (intro conjI impI)
  assume q: "quiet_round w \<and> getCurrentTime w = Inr t"
  from notifySubscribers_quiet [of w t] q obtain w1 where
    n: "notifySubscribers w = Some (Inr (), w1)"
    and c: "calls w1 = calls w @ map (\<lambda>cb. (cb, t)) (Set_members (subscribers w))"
    and e: "console w1 = console w
              @ map (\<lambda>cb. Error_in_subscriber_callback (Thrown cb))
                  (filter (throws w) (Set_members (subscribers w)))"
    by blast
  from n show "\<exists>w'. notifySubscribers w = Some (Inr (), w')" by blast
  from n c show "round_calls w = Some (map (\<lambda>cb. (cb, t)) (Set_members (subscribers w)))"
    by (simp add: round_calls_def)
  from n e show "round_errors w = Some (map (\<lambda>cb. Error_in_subscriber_callback (Thrown cb))
                                 (filter (throws w) (Set_members (subscribers w))))"
    by (simp add: round_errors_def)
next
  assume "setTime a w = Some (Inl (Thrown g), w')"
  then show "opt_onTimeChange (options w) = UserFn g" by (rule setTime_Thrown)
next
  assume "addTime ms w = Some (Inl (Thrown g), w')"
  then show "opt_onTimeChange (options w) = UserFn g" by (rule addTime_Thrown)
next
  show "enable w \<noteq> Some (Inl (Thrown g), w')" by (rule enable_not_Thrown)
next
  show "disable w \<noteq> Some (Inl (Thrown g), w')" by (rule disable_not_Thrown)
qed

theorem C9_subscriber_exceptions_are_contained_witness:
  "quiet_round failing_subscriber
   \<and> getCurrentTime failing_subscriber = Inr (Time 1704110400000)
   \<and> throws failing_subscriber 1
   \<and> round_calls failing_subscriber = Some [(1, Time 1704110400000), (2, Time 1704110400000)]
   \<and> round_errors failing_subscriber = Some [Error_in_subscriber_callback (Thrown 1)]
   \<and> setTime (ArgNumber (Num 5)) failing_subscriber
       = Some (Inl (Thrown 7),
           failing_subscriber\<lparr>currentTime := Time 5,
              calls := [(1, Time 5), (2, Time 5), (7, Time 5)],
              console := [Info_disabled Development, Error_in_subscriber_callback (Thrown 1)]\<rparr>)
   \<and> opt_onTimeChange (options failing_subscriber) = UserFn 7"
  using C9_subscriber_exceptions_are_contained
    [of failing_subscriber "Time 1704110400000" "ArgNumber (Num 5)" 7
        "failing_subscriber\<lparr>currentTime := Time 5,
              calls := [(1, Time 5), (2, Time 5), (7, Time 5)],
              console := [Info_disabled Development, Error_in_subscriber_callback (Thrown 1)]\<rparr>"]
  by (simp add: quiet_round_def throws_def state_defs surface_defs controller_defs
        forEach.simps)

lemma announce_handler_throws:
  assumes h: "opt_onTimeChange (options w) = UserFn f" and thr: "throws w f"
    and nat: "global_Date w = NativeDate"
    and ct: "currentTime w = Time n" and rg: "\<bar>n\<bar> \<le> max_time"
    and rd: "notifySubscribers w = Some (Inr (), w1)"
  shows "announce w = Some (Inl (Thrown f), snd (call_fn f (Time n) w1))"
    and "currentTime (snd (call_fn f (Time n) w1)) = Time n"
    and "calls (snd (call_fn f (Time n) w1)) = calls w1 @ [(f, Time n)]"
proof -
  have u: "untouched w w1" using rd by (rule notifySubscribers_untouched)
  have g1: "getCurrentTime w1 = Inr (Time n)"
    using untouched_fields(3,4) [OF u] nat ct rg
    by (simp add: getCurrentTime_native TimeClip_def)
  have "throws w1 f" using thr untouched_fields(5) [OF u] by (simp add: throws_def)
  then have t: "fst (call_fn f (Time n) w1) = Inl (Thrown f)" by (rule call_fn_throws)
  have "announce w = Some (call_fn f (Time n) w1)"
    using rd g1 h untouched_fields(2) [OF u] by (simp add: announce_def call_handler_def)
  with t show "announce w = Some (Inl (Thrown f), snd (call_fn f (Time n) w1))"
    by (metis prod.collapse)
  show "currentTime (snd (call_fn f (Time n) w1)) = Time n"
    using untouched_fields(4) [OF call_fn_untouched [of w1 f "Time n"]]
      untouched_fields(4) [OF u] ct by simp
  show "calls (snd (call_fn f (Time n) w1)) = calls w1 @ [(f, Time n)]"
    by (rule call_fn_calls)
qed

lemma quiet_round_currentTime: "quiet_round (w\<lparr>currentTime := d\<rparr>) = quiet_round w"
  by (simp add: quiet_round_def cong: option.case_cong)

lemma announce_handler_throws_quiet:
  assumes h: "opt_onTimeChange (options w) = UserFn f" and thr: "throws w f"
    and nat: "global_Date w = NativeDate"
    and ct: "currentTime w = Time n" and rg: "\<bar>n\<bar> \<le> max_time"
    and q: "quiet_round w"
  shows "\<exists>w2. announce w = Some (Inl (Thrown f), w2) \<and> currentTime w2 = Time n
           \<and> calls w2 = calls w @ map (\<lambda>cb. (cb, Time n)) (Set_members (subscribers w))
                          @ [(f, Time n)]"
proof -
  have g: "getCurrentTime w = Inr (Time n)"
    using nat ct rg by (simp add: getCurrentTime_native TimeClip_def)
  from notifySubscribers_quiet [OF q g] obtain w1 where
    n: "notifySubscribers w = Some (Inr (), w1)"
    and c: "calls w1 = calls w @ map (\<lambda>cb. (cb, Time n)) (Set_members (subscribers w))"
    by blast
  from announce_handler_throws [OF h thr nat ct rg n] c show ?thesis by simp
qed

text \<open>
  C10. An exception thrown by the \<^verbatim>\<open>onTimeChange\<close> callback is not caught: \<^verbatim>\<open>setTime\<close> and
  \<^verbatim>\<open>addTime\<close> end with it, in the state reached after the new instant was stored and the
  notification round was run. With \<^verbatim>\<open>Date\<close> not intercepted, a throwing \<^verbatim>\<open>onTimeChange\<close>
  callback \<^verbatim>\<open>f\<close> and a valid new instant: if the round over the subscribers ends in \<open>w1\<close>,
  the operation ends with the exception of \<^verbatim>\<open>f\<close>, called in \<open>w1\<close>, and the new instant
  stays; when the subscribers return or throw, the calls made are those of every
  subscriber, then that of \<^verbatim>\<open>f\<close>.
\<close>

theorem C10_onTimeChange_exception_propagates_after_the_round:
  assumes "opt_onTimeChange (options w) = UserFn f" and "throws w f"
    and "global_Date w = NativeDate"
  shows "(native_Date1 time w = Time n \<and> \<bar>n\<bar> \<le> max_time
            \<and> notifySubscribers (w\<lparr>currentTime := Time n\<rparr>) = Some (Inr (), w1) \<longrightarrow>
          setTime time w = Some (Inl (Thrown f), snd (call_fn f (Time n) w1))
          \<and> currentTime (snd (call_fn f (Time n) w1)) = Time n
          \<and> calls (snd (call_fn f (Time n) w1)) = calls w1 @ [(f, Time n)])
       \<and> (currentTime w = Time t0 \<and> \<bar>t0 + k\<bar> \<le> max_time
            \<and> notifySubscribers (w\<lparr>currentTime := Time (t0 + k)\<rparr>) = Some (Inr (), w1) \<longrightarrow>
          addTime (Num k) w = Some (Inl (Thrown f), snd (call_fn f (Time (t0 + k)) w1))
          \<and> currentTime (snd (call_fn f (Time (t0 + k)) w1)) = Time (t0 + k)
          \<and> calls (snd (call_fn f (Time (t0 + k)) w1)) = calls w1 @ [(f, Time (t0 + k))])
       \<and> (native_Date1 time w = Time n \<and> \<bar>n\<bar> \<le> max_time \<and> quiet_round w \<longrightarrow>
          (\<exists>w2. setTime time w = Some (Inl (Thrown f), w2) \<and> currentTime w2 = Time n
             \<and> calls w2 = calls w @ map (\<lambda>cb. (cb, Time n)) (Set_members (subscribers w))
                            @ [(f, Time n)]))
       \<and> (currentTime w = Time t0 \<and> \<bar>t0 + k\<bar> \<le> max_time \<and> quiet_round w \<longrightarrow>
          (\<exists>w2. addTime (Num k) w = Some (Inl (Thrown f), w2)
             \<and> currentTime w2 = Time (t0 + k)
             \<and> calls w2 = calls w
                  @ map (\<lambda>cb. (cb, Time (t0 + k))) (Set_members (subscribers w))
                  @ [(f, Time (t0 + k))]))"
proof -
  have st: "setTime time w = announce (w\<lparr>currentTime := Time n\<rparr>)"
    if "native_Date1 time w = Time n" for n
    using that assms(3) by (simp add: setTime_def new_Date_native)
  have at: "addTime (Num k) w = announce (w\<lparr>currentTime := Time (t0 + k)\<rparr>)"
    if "currentTime w = Time t0" "\<bar>t0 + k\<bar> \<le> max_time" for t0 k
    using that assms(3) by (simp add: addTime_def new_Date_native native_Date1_def TimeClip_def)
  have pre: "opt_onTimeChange (options (w\<lparr>currentTime := d\<rparr>)) = UserFn f"
    "throws (w\<lparr>currentTime := d\<rparr>) f" "global_Date (w\<lparr>currentTime := d\<rparr>) = NativeDate"
    "currentTime (w\<lparr>currentTime := d\<rparr>) = d" for d
    using assms by (simp_all add: throws_def)
  show ?thesis
  proof (intro conjI impI)
    assume a: "native_Date1 time w = Time n \<and> \<bar>n\<bar> \<le> max_time
            \<and> notifySubscribers (w\<lparr>currentTime := Time n\<rparr>) = Some (Inr (), w1)"
    then have rg: "\<bar>n\<bar> \<le> max_time"
      and rd: "notifySubscribers (w\<lparr>currentTime := Time n\<rparr>) = Some (Inr (), w1)"
      by simp_all
    note r = announce_handler_throws [OF pre(1) pre(2) pre(3) pre(4) rg rd]
    from r(1) st a show "setTime time w = Some (Inl (Thrown f), snd (call_fn f (Time n) w1))"
      by simp
    from r(2) show "currentTime (snd (call_fn f (Time n) w1)) = Time n" .
    from r(3) show "calls (snd (call_fn f (Time n) w1)) = calls w1 @ [(f, Time n)]" .
  next
    assume a: "currentTime w = Time t0 \<and> \<bar>t0 + k\<bar> \<le> max_time
            \<and> notifySubscribers (w\<lparr>currentTime := Time (t0 + k)\<rparr>) = Some (Inr (), w1)"
    then have rg: "\<bar>t0 + k\<bar> \<le> max_time"
      and rd: "notifySubscribers (w\<lparr>currentTime := Time (t0 + k)\<rparr>) = Some (Inr (), w1)"
      by simp_all
    note r = announce_handler_throws [OF pre(1) pre(2) pre(3) pre(4) rg rd]
    from r(1) at a
    show "addTime (Num k) w = Some (Inl (Thrown f), snd (call_fn f (Time (t0 + k)) w1))"
      by simp
    from r(2) show "currentTime (snd (call_fn f (Time (t0 + k)) w1)) = Time (t0 + k)" .
    from r(3)
    show "calls (snd (call_fn f (Time (t0 + k)) w1)) = calls w1 @ [(f, Time (t0 + k))]" .
  next
    assume a: "native_Date1 time w = Time n \<and> \<bar>n\<bar> \<le> max_time \<and> quiet_round w"
    then have rg: "\<bar>n\<bar> \<le> max_time" and q: "quiet_round (w\<lparr>currentTime := Time n\<rparr>)"
      by (simp_all add: quiet_round_currentTime)
    from announce_handler_throws_quiet [OF pre(1) pre(2) pre(3) pre(4) rg q] st a
    show "\<exists>w2. setTime time w = Some (Inl (Thrown f), w2) \<and> currentTime w2 = Time n
             \<and> calls w2 = calls w @ map (\<lambda>cb. (cb, Time n)) (Set_members (subscribers w))
                            @ [(f, Time n)]"
      by simp
  next
    assume a: "currentTime w = Time t0 \<and> \<bar>t0 + k\<bar> \<le> max_time \<and> quiet_round w"
    then have rg: "\<bar>t0 + k\<bar> \<le> max_time"
      and q: "quiet_round (w\<lparr>currentTime := Time (t0 + k)\<rparr>)"
      by (simp_all add: quiet_round_currentTime)
    from announce_handler_throws_quiet [OF pre(1) pre(2) pre(3) pre(4) rg q] at a
    show "\<exists>w2. addTime (Num k) w = Some (Inl (Thrown f), w2)
             \<and> currentTime w2 = Time (t0 + k)
             \<and> calls w2 = calls w
                  @ map (\<lambda>cb. (cb, Time (t0 + k))) (Set_members (subscribers w))
                  @ [(f, Time (t0 + k))]"
      by simp
  qed
qed

theorem C10_onTimeChange_exception_propagates_after_the_round_witness:
  "opt_onTimeChange (options failing_subscriber) = UserFn 7
   \<and> throws failing_subscriber 7
   \<and> global_Date failing_subscriber = NativeDate
   \<and> quiet_round failing_subscriber
   \<and> currentTime failing_subscriber = Time 1704110400000
   \<and> setTime (ArgNumber (Num 5)) failing_subscriber
       = Some (Inl (Thrown 7),
           failing_subscriber\<lparr>currentTime := Time 5,
              calls := [(1, Time 5), (2, Time 5), (7, Time 5)],
              console := [Info_disabled Development, Error_in_subscriber_callback (Thrown 1)]\<rparr>)
   \<and> addTime (Num 60000) failing_subscriber
       = Some (Inl (Thrown 7),
           failing_subscriber\<lparr>currentTime := Time 1704110460000,
              calls := [(1, Time 1704110460000), (2, Time 1704110460000),
                        (7, Time 1704110460000)],
              console := [Info_disabled Development, Error_in_subscriber_callback (Thrown 1)]\<rparr>)"
  using C10_onTimeChange_exception_propagates_after_the_round
    [of failing_subscriber 7 "ArgNumber (Num 5)" 5
        "failing_subscriber\<lparr>currentTime := Time 5,
              calls := [(1, Time 5), (2, Time 5)],
              console := [Info_disabled Development, Error_in_subscriber_callback (Thrown 1)]\<rparr>"
        1704110400000 60000]
  by (simp add: quiet_round_def throws_def state_defs surface_defs controller_defs
        forEach.simps)

subsection \<open>What the time mutations change\<close>

lemma never_subscribes_currentTime:
  "never_subscribes (w\<lparr>currentTime := d\<rparr>) = never_subscribes w"
  by (simp add: never_subscribes_def)

lemma announce_frame:
  assumes "announce (w\<lparr>currentTime := d\<rparr>) = Some (r, w')"
  shows "untouched (w\<lparr>currentTime := currentTime w'\<rparr>) w'" and "currentTime w' = d"
proof -
  have u: "untouched (w\<lparr>currentTime := d\<rparr>) w'" using assms by (rule announce_untouched)
  from untouched_fields(4) [OF u] show c: "currentTime w' = d" by simp
  from u c show "untouched (w\<lparr>currentTime := currentTime w'\<rparr>) w'" by simp
qed

lemma setTime_frame:
  assumes "setTime a w = Some (r, w')"
  shows "untouched (w\<lparr>currentTime := currentTime w'\<rparr>) w'"
proof (cases "new_Date (Some a) w")
  case (Inl e)
  with assms show ?thesis by (simp add: setTime_def untouched_refl)
next
  case (Inr d)
  show ?thesis
  proof (cases "isNaN (getTime d)")
    case True
    with assms Inr show ?thesis by (simp add: setTime_def untouched_refl)
  next
    case False
    with assms Inr have "announce (w\<lparr>currentTime := d\<rparr>) = Some (r, w')"
      by (simp add: setTime_def)
    then show ?thesis by (rule announce_frame)
  qed
qed

lemma addTime_frame:
  assumes "addTime ms w = Some (r, w')"
  shows "untouched (w\<lparr>currentTime := currentTime w'\<rparr>) w'"
proof (cases "isNaN ms")
  case True
  with assms show ?thesis by (simp add: addTime_def untouched_refl)
next
  case False
  show ?thesis
  proof (cases "new_Date (Some (ArgNumber (js_add (getTime (currentTime w)) ms))) w")
    case (Inl e)
    with assms False show ?thesis by (simp add: addTime_def untouched_refl)
  next
    case (Inr d)
    with assms False have "announce (w\<lparr>currentTime := d\<rparr>) = Some (r, w')"
      by (simp add: addTime_def)
    then show ?thesis by (rule announce_frame)
  qed
qed

lemma setTime_fields:
  assumes "setTime a w = Some (r, w')"
  shows "enabled w' = enabled w" and "options w' = options w"
    and "global_Date w' = global_Date w" and "fn_body w' = fn_body w"
  using untouched_fields [OF setTime_frame [OF assms]] by simp_all

lemma addTime_fields:
  assumes "addTime ms w = Some (r, w')"
  shows "enabled w' = enabled w" and "options w' = options w"
    and "global_Date w' = global_Date w" and "fn_body w' = fn_body w"
  using untouched_fields [OF addTime_frame [OF assms]] by simp_all


lemma addTime_total:
  assumes "never_subscribes w"
  shows "\<exists>r w'. addTime ms w = Some (r, w')"
proof (cases "isNaN ms")
  case True
  then show ?thesis by (simp add: addTime_def)
next
  case False
  show ?thesis
  proof (cases "new_Date (Some (ArgNumber (js_add (getTime (currentTime w)) ms))) w")
    case (Inl e)
    with False show ?thesis by (simp add: addTime_def)
  next
    case (Inr d)
    have "never_subscribes (w\<lparr>currentTime := d\<rparr>)"
      using assms by (simp add: never_subscribes_currentTime)
    from announce_total [OF this] Inr False show ?thesis by (simp add: addTime_def)
  qed
qed




subsection \<open>Activation\<close>

lemma hijackNativeFunctions_fields:
  "enabled (hijackNativeFunctions w) = enabled w"
  "options (hijackNativeFunctions w) = options w"
  by (simp_all add: hijackNativeFunctions_def)

lemma restoreNativeFunctions_fields:
  "enabled (restoreNativeFunctions w) = enabled w"
  "options (restoreNativeFunctions w) = options w"
  by (simp_all add: restoreNativeFunctions_def split: option.splits)

lemma hijackLibraries_fields:
  "enabled (hijackLibraries w) = enabled w"
  "options (hijackLibraries w) = options w"
  by (simp_all add: hijackLibraries_def hijackDateFns_def hijackDayjs_def hijackMoment_def
        put_moment_def split: option.splits prod.splits lib_slot.splits)

lemma restoreLibraries_fields:
  "enabled (restoreLibraries w) = enabled w"
  "options (restoreLibraries w) = options w"
  by (simp_all add: restoreLibraries_def restoreDateFns_def restoreDayjs_def restoreMoment_def
        split: option.splits)

lemma logEnvironmentInfo_fields:
  "enabled (logEnvironmentInfo e b w) = enabled w"
  "options (logEnvironmentInfo e b w) = options w"
  by (simp_all add: logEnvironmentInfo_def)

lemma enable_fields:
  assumes "enable w = Some (r, w')"
  shows "enabled w' =
           (enabled w \<or> shouldEnableTimeControl (Some (opt_environment (options w))) w)"
    and "options w' = options w"
proof -
  let ?ok = "shouldEnableTimeControl (Some (opt_environment (options w))) w"
  let ?w1 = "hijackNativeFunctions (w\<lparr>enabled := True\<rparr>)"
  let ?w2 = "if opt_hijackLibraries (options ?w1) then hijackLibraries ?w1 else ?w1"
  have w2: "enabled ?w2 = True" "options ?w2 = options w"
    by (simp_all add: hijackNativeFunctions_fields hijackLibraries_fields)
  have "enabled w' = (enabled w \<or> ?ok) \<and> options w' = options w"
  proof (cases "enabled w \<or> \<not> ?ok")
    case True
    with assms show ?thesis by (auto simp: enable_def split: if_splits)
  next
    case False
    with assms have "notifySubscribers ?w2 = Some (r, w')"
      by (simp add: enable_def Let_def)
    from untouched_fields(1,2) [OF notifySubscribers_untouched [OF this]] w2 False
    show ?thesis by simp
  qed
  then show "enabled w' = (enabled w \<or> ?ok)" and "options w' = options w" by simp_all
qed

lemma disable_fields:
  assumes "disable w = Some (r, w')"
  shows "enabled w' = False" and "options w' = options w"
proof -
  let ?w1 = "restoreLibraries (restoreNativeFunctions (w\<lparr>enabled := False\<rparr>))"
  have w1: "enabled ?w1 = False" "options ?w1 = options w"
    by (simp_all add: restoreNativeFunctions_fields restoreLibraries_fields)
  have "enabled w' = False \<and> options w' = options w"
  proof (cases "enabled w")
    case False
    with assms show ?thesis by (auto simp: disable_def)
  next
    case True
    with assms have "notifySubscribers ?w1 = Some (r, w')" by (simp add: disable_def)
    from untouched_fields(1,2) [OF notifySubscribers_untouched [OF this]] w1
    show ?thesis by simp
  qed
  then show "enabled w' = False" and "options w' = options w" by simp_all
qed

lemma detectEnvironment_controller_fields:
  "detectEnvironment (w\<lparr>currentTime := d, enabled := b, subscribers := s\<rparr>) = detectEnvironment w"
  by (simp add: detectEnvironment_def cong: if_cong)

lemma TimeControllerImpl_new_unfold:
  assumes n: "new_Date None w = Inr d0"
    and s: "resolve_startTime opts (w\<lparr>currentTime := d0, enabled := False, subscribers := []\<rparr>)
              = Inr startTime"
  shows "TimeControllerImpl_new opts w =
       (case setTime startTime
               (w\<lparr>currentTime := d0, enabled := False, subscribers := [],
                  options := resolved_options opts startTime w\<rparr>) of
          None \<Rightarrow> None
        | Some (Inl e, w3) \<Rightarrow> Some (Inl e, w3)
        | Some (Inr u, w3) \<Rightarrow>
            (case (if opt_enabled (options (w3\<lparr>backup := None, isHijacked := False\<rparr>))
                   then enable (w3\<lparr>backup := None, isHijacked := False\<rparr>)
                   else Some (Inr (), w3\<lparr>backup := None, isHijacked := False\<rparr>)) of
               None \<Rightarrow> None
             | Some (Inl e, w5) \<Rightarrow> Some (Inl e, w5)
             | Some (Inr u, w5) \<Rightarrow>
                 Some (Inr (), logEnvironmentInfo (opt_environment (options w5))
                                 (enabled w5) w5)))"
proof -
  let ?w1 = "w\<lparr>currentTime := d0, enabled := False, subscribers := []\<rparr>"
  have O: "\<lparr>opt_enabled =
                (case enabled_opt opts of
                   Some b \<Rightarrow> b
                 | None \<Rightarrow> shouldEnableTimeControl
                     (Some (case environment_opt opts of Some e \<Rightarrow> e
                                                       | None \<Rightarrow> detectEnvironment ?w1)) ?w1),
              opt_startTime = startTime,
              opt_hijackLibraries =
                (case hijackLibraries_opt opts of Some b \<Rightarrow> b | None \<Rightarrow> True),
              opt_environment =
                (case environment_opt opts of Some e \<Rightarrow> e | None \<Rightarrow> detectEnvironment ?w1),
              opt_onTimeChange =
                (case onTimeChange_opt opts of Some f \<Rightarrow> UserFn f | None \<Rightarrow> EmptyArrow)\<rparr>
             = resolved_options opts startTime w"
    by (cases "enabled_opt opts"; cases "environment_opt opts")
       (simp_all add: resolved_options_def requested_def shouldEnableTimeControl_def
          detectEnvironment_controller_fields)
  have st: "opt_startTime (resolved_options opts startTime w) = startTime"
    by (simp add: resolved_options_def)
  show ?thesis
    unfolding TimeControllerImpl_new_def Let_def n sum.case s O
    by (simp add: st)
qed

lemma TimeControllerImpl_new_enabled:
  assumes n: "new_Date None w = Inr d0"
    and c: "TimeControllerImpl_new opts w = Some (r, w')"
  shows "enabled w' \<longrightarrow> requested opts w \<and> allowed opts w"
    and "r = Inr () \<longrightarrow> enabled w' = (requested opts w \<and> allowed opts w)
           \<and> opt_environment (options w')
               = (case environment_opt opts of Some e \<Rightarrow> e | None \<Rightarrow> detectEnvironment w)"
proof -
  let ?w1 = "w\<lparr>currentTime := d0, enabled := False, subscribers := []\<rparr>"
  let ?env = "case environment_opt opts of Some e \<Rightarrow> e | None \<Rightarrow> detectEnvironment w"
  have al: "allowed opts w = shouldEnableTimeControl (Some ?env) v" for v
    by (simp add: allowed_def shouldEnableTimeControl_def)
  have goal: "(enabled w' \<longrightarrow> requested opts w \<and> allowed opts w)
         \<and> (r = Inr () \<longrightarrow> enabled w' = (requested opts w \<and> allowed opts w)
               \<and> opt_environment (options w') = ?env)"
  proof (cases "resolve_startTime opts ?w1")
    case (Inl e)
    with n c have "r = Inl e" and "w' = ?w1"
      by (auto simp: TimeControllerImpl_new_def Let_def)
    then show ?thesis by simp
  next
    case (Inr startTime)
    let ?O = "resolved_options opts startTime w"
    let ?w2 = "?w1\<lparr>options := ?O\<rparr>"
    have Oe: "opt_enabled ?O = requested opts w" and Ov: "opt_environment ?O = ?env"
      by (simp_all add: resolved_options_def)
    note c2 = TimeControllerImpl_new_unfold [OF n Inr]
    show ?thesis
    proof (cases "setTime startTime ?w2")
      case None
      with c2 have "TimeControllerImpl_new opts w = None" by simp
      with c show ?thesis by simp
    next
      case (Some p)
      obtain r3 w3 where p: "p = (r3, w3)" by (cases p)
      have f3: "enabled w3 = False" "options w3 = ?O"
        using setTime_fields(1,2) [of startTime ?w2 r3 w3] Some p by simp_all
      show ?thesis
      proof (cases r3)
        case (Inl e)
        with c2 Some p have "TimeControllerImpl_new opts w = Some (Inl e, w3)" by simp
        from trans [OF c [symmetric] this] have "r = Inl e" and "w' = w3" by simp_all
        with f3 show ?thesis by simp
      next
        case (Inr u)
        let ?w4 = "w3\<lparr>backup := None, isHijacked := False\<rparr>"
        have f4: "enabled ?w4 = False" "options ?w4 = ?O" using f3 by simp_all
        have c4: "TimeControllerImpl_new opts w =
            (case (if requested opts w then enable ?w4 else Some (Inr (), ?w4)) of
               None \<Rightarrow> None
             | Some (Inl e, w5) \<Rightarrow> Some (Inl e, w5)
             | Some (Inr u, w5) \<Rightarrow>
                 Some (Inr (), logEnvironmentInfo (opt_environment (options w5))
                                 (enabled w5) w5))"
          using c2 Some p Inr f3 Oe by simp
        show ?thesis
        proof (cases "requested opts w")
          case False
          with c4 have "TimeControllerImpl_new opts w =
              Some (Inr (), logEnvironmentInfo (opt_environment (options ?w4)) (enabled ?w4) ?w4)"
            by simp
          from trans [OF c [symmetric] this]
          have "r = Inr ()"
            and "w' = logEnvironmentInfo (opt_environment (options ?w4)) (enabled ?w4) ?w4"
            by simp_all
          with f3 False Ov show ?thesis by (simp add: logEnvironmentInfo_fields)
        next
          case True
          show ?thesis
          proof (cases "enable ?w4")
            case None
            with c4 True have "TimeControllerImpl_new opts w = None" by simp
            with c show ?thesis by simp
          next
            case en: (Some q)
            obtain r5 w5 where q: "q = (r5, w5)" by (cases q)
            have f5: "enabled w5 = allowed opts w" "options w5 = ?O"
              using enable_fields [of ?w4 r5 w5] en q f4 al [of ?w4] Ov by simp_all
            show ?thesis
            proof (cases r5)
              case (Inl e)
              with c4 True en q have "TimeControllerImpl_new opts w = Some (Inl e, w5)"
                by simp
              from trans [OF c [symmetric] this] have "r = Inl e" and "w' = w5" by simp_all
              with f5 True show ?thesis by simp
            next
              case r: (Inr u5)
              with c4 True en q have "TimeControllerImpl_new opts w =
                  Some (Inr (), logEnvironmentInfo (opt_environment (options w5)) (enabled w5) w5)"
                by simp
              from trans [OF c [symmetric] this]
              have "r = Inr ()"
                and "w' = logEnvironmentInfo (opt_environment (options w5)) (enabled w5) w5"
                by simp_all
              with f5 True Ov show ?thesis by (simp add: logEnvironmentInfo_fields)
            qed
          qed
        qed
      qed
    qed
  qed
  from goal show "enabled w' \<longrightarrow> requested opts w \<and> allowed opts w"
    by (rule conjunct1)
  from goal show "r = Inr () \<longrightarrow> enabled w' = (requested opts w \<and> allowed opts w)
           \<and> opt_environment (options w') = ?env"
    by (rule conjunct2)
qed

lemma notifySubscribers_empty:
  assumes "subscribers v = []"
  shows "\<exists>r. notifySubscribers v = Some (r, v)"
proof (cases "getCurrentTime v")
  case (Inl e)
  then show ?thesis by (simp add: notifySubscribers_def)
next
  case (Inr t)
  have "forEach 0 t v = Some v" using assms by (subst forEach.simps) simp
  with Inr show ?thesis by (simp add: notifySubscribers_def)
qed

lemma hijack_subscribers:
  "subscribers (hijackNativeFunctions w) = subscribers w"
  "subscribers (hijackLibraries w) = subscribers w"
  by (simp_all add: hijackNativeFunctions_def hijackLibraries_def hijackDateFns_def
        hijackDayjs_def hijackMoment_def put_moment_def
        split: option.splits prod.splits lib_slot.splits)

lemma enable_total_empty:
  assumes "subscribers v = []"
  shows "\<exists>r v'. enable v = Some (r, v')"
proof -
  let ?w1 = "hijackNativeFunctions (v\<lparr>enabled := True\<rparr>)"
  let ?w2 = "if opt_hijackLibraries (options ?w1) then hijackLibraries ?w1 else ?w1"
  have "subscribers ?w2 = []" using assms by (simp add: hijack_subscribers)
  from notifySubscribers_empty [OF this] obtain r where "notifySubscribers ?w2 = Some (r, ?w2)" ..
  then show ?thesis by (simp add: enable_def Let_def)
qed

lemma setTime_plain:
  assumes "global_Date v = NativeDate" and "subscribers v = []"
    and "opt_onTimeChange (options v) = EmptyArrow"
  shows "setTime (ArgDate (Time n)) v = Some (Inr (), v\<lparr>currentTime := Time n\<rparr>)"
proof -
  let ?v1 = "v\<lparr>currentTime := Time n\<rparr>"
  have g: "getCurrentTime ?v1 = Inr (TimeClip (Num n))"
    using assms(1) by (simp add: getCurrentTime_native)
  have "forEach 0 (TimeClip (Num n)) ?v1 = Some ?v1"
    using assms(2) by (subst forEach.simps) simp
  with g have "notifySubscribers ?v1 = Some (Inr (), ?v1)"
    by (simp add: notifySubscribers_def)
  with g assms(3) have "announce ?v1 = Some (Inr (), ?v1)"
    by (simp add: announce_def call_handler_def)
  with assms(1) show ?thesis
    by (simp add: setTime_def new_Date_native native_Date1_def)
qed

lemma TimeControllerImpl_new_default:
  assumes nat: "global_Date w = NativeDate"
    and s: "startTime_opt opts = None" and h: "onTimeChange_opt opts = None"
  shows "\<exists>r w'. TimeControllerImpl_new opts w = Some (r, w')
           \<and> enabled w' = (requested opts w \<and> allowed opts w)
           \<and> (\<not> (requested opts w \<and> allowed opts w) \<longrightarrow> r = Inr ())"
proof -
  let ?d = "Time (wall_clock w)"
  let ?w1 = "w\<lparr>currentTime := ?d, enabled := False, subscribers := []\<rparr>"
  let ?O = "resolved_options opts (ArgDate ?d) w"
  let ?w2 = "?w1\<lparr>options := ?O\<rparr>"
  let ?w4 = "?w2\<lparr>currentTime := ?d\<rparr>\<lparr>backup := None, isHijacked := False\<rparr>"
  have n: "new_Date None w = Inr ?d" using nat by (simp add: new_Date_native)
  have rs: "resolve_startTime opts ?w1 = Inr (ArgDate ?d)"
    using nat s by (simp add: resolve_startTime_def new_Date_native)
  have O: "opt_enabled ?O = requested opts w" "opt_onTimeChange ?O = EmptyArrow"
    "shouldEnableTimeControl (Some (opt_environment ?O)) v = allowed opts w" for v
    using h by (simp_all add: resolved_options_def allowed_def shouldEnableTimeControl_def)
  have st: "setTime (ArgDate ?d) ?w2 = Some (Inr (), ?w2\<lparr>currentTime := ?d\<rparr>)"
    using nat O(2) by (intro setTime_plain) simp_all
  have c: "TimeControllerImpl_new opts w =
      (case (if requested opts w then enable ?w4 else Some (Inr (), ?w4)) of
         None \<Rightarrow> None
       | Some (Inl e, w5) \<Rightarrow> Some (Inl e, w5)
       | Some (Inr u, w5) \<Rightarrow>
           Some (Inr (), logEnvironmentInfo (opt_environment (options w5)) (enabled w5) w5))"
    unfolding TimeControllerImpl_new_unfold [OF n rs] st by (simp add: O(1))
  show ?thesis
  proof (cases "requested opts w")
    case False
    with c show ?thesis by (simp add: logEnvironmentInfo_fields)
  next
    case True
    show ?thesis
    proof (cases "allowed opts w")
      case a: True
      obtain r5 w5 where en: "enable ?w4 = Some (r5, w5)"
        using enable_total_empty [of ?w4] by auto
      have e5: "enabled w5 = allowed opts w"
        using enable_fields(1) [OF en] O(3) [of ?w4] by simp
      from c True a en e5 show ?thesis
        by (cases r5) (simp_all add: logEnvironmentInfo_fields)
    next
      case a: False
      have "\<not> shouldEnableTimeControl (Some (opt_environment (options ?w4))) ?w4"
        using a O(3) [of ?w4] by simp
      then have en: "enable ?w4
          = Some (Inr (), ?w4\<lparr>console := console ?w4 @ [Warn_cannot_enable_in_production]\<rparr>)"
        by (simp add: enable_def)
      from c True a show ?thesis
        unfolding en by (simp add: logEnvironmentInfo_fields)
    qed
  qed
qed

text \<open>
  C8 (as the specification states it). An explicit \<^verbatim>\<open>enabled: true\<close> makes the initial state
  Enabled in every environment. With \<^verbatim>\<open>{ enabled: true, environment: 'production' }\<close> the
  constructor calls \<^verbatim>\<open>enable()\<close>, which consults the environment policy and refuses: the
  controller is returned Disabled.
\<close>

theorem C8_explicit_true_is_refused_in_production:
  "enabled_opt production_options = Some True
   \<and> map_option (\<lambda>(r, w). (r, isActive w, console w))
        (TimeControllerImpl_new production_options page)
       = Some (Inr (), False,
               [Warn_cannot_enable_in_production, Warn_environment Production])"
  by (simp add: state_defs surface_defs controller_defs environment_defs forEach.simps)

text \<open>
  C8 (amended). Stated for a constructor call made while \<^verbatim>\<open>Date\<close> is not intercepted. An
  explicit \<^verbatim>\<open>enabled: false\<close> forces Disabled. An explicit \<^verbatim>\<open>enabled: true\<close> is a request only:
  \<^verbatim>\<open>enable()\<close> consults the environment policy for it as well. So, whatever the constructor
  returns or throws, the activation flag is set only when activation is requested (an
  explicit \<^verbatim>\<open>true\<close>, or no \<^verbatim>\<open>enabled\<close> and an environment the policy allows) and the policy
  allows the environment; a controller that the constructor returns is Enabled exactly when
  both hold; and with the default start time and no \<^verbatim>\<open>onTimeChange\<close>, a call in which they
  do not both hold returns a Disabled controller.
\<close>

theorem C8_initial_activation:
  assumes "global_Date w = NativeDate"
  shows "(TimeControllerImpl_new opts w = Some (r, w') \<and> isActive w' \<longrightarrow>
            requested opts w \<and> allowed opts w)
       \<and> (TimeControllerImpl_new opts w = Some (r, w') \<and> enabled_opt opts = Some False \<longrightarrow>
            \<not> isActive w')
       \<and> (TimeControllerImpl_new opts w = Some (Inr (), w') \<longrightarrow>
            isActive w' = (requested opts w \<and> allowed opts w))
       \<and> (startTime_opt opts = None \<and> onTimeChange_opt opts = None
            \<and> \<not> (requested opts w \<and> allowed opts w) \<longrightarrow>
            (\<exists>v. TimeControllerImpl_new opts w = Some (Inr (), v) \<and> \<not> isActive v))"
proof -
  have n: "new_Date None w = Inr (Time (wall_clock w))"
    using assms by (simp add: new_Date_native)
  have a: "isActive w' \<longrightarrow> requested opts w \<and> allowed opts w"
    if "TimeControllerImpl_new opts w = Some (r, w')"
    using TimeControllerImpl_new_enabled(1) [OF n that] by (simp add: isActive_def)
  have b: "\<not> requested opts w" if "enabled_opt opts = Some False"
    using that by (simp add: requested_def)
  have c: "isActive w' = (requested opts w \<and> allowed opts w)"
    if "TimeControllerImpl_new opts w = Some (Inr (), w')"
    using TimeControllerImpl_new_enabled(2) [OF n that] by (simp add: isActive_def)
  have d: "\<exists>v. TimeControllerImpl_new opts w = Some (Inr (), v) \<and> \<not> isActive v"
    if "startTime_opt opts = None" "onTimeChange_opt opts = None"
      "\<not> (requested opts w \<and> allowed opts w)"
    using TimeControllerImpl_new_default [OF assms that(1,2)] that(3)
    by (auto simp: isActive_def)
  from a b have ab: "TimeControllerImpl_new opts w = Some (r, w') \<and> enabled_opt opts = Some False
      \<longrightarrow> \<not> isActive w'" by blast
  from a c d ab show ?thesis by blast
qed

theorem C8_initial_activation_witness:
  "global_Date page = NativeDate \<and> global_Date legacy_page = NativeDate
   \<and> requested production_options page \<and> \<not> allowed production_options page
   \<and> map_option (\<lambda>(r, v). (r, isActive v)) (TimeControllerImpl_new production_options page)
       = Some (Inr (), False)
   \<and> enabled_opt idle_options = Some False
   \<and> map_option (\<lambda>(r, v). (r, isActive v)) (TimeControllerImpl_new idle_options page)
       = Some (Inr (), False)
   \<and> map_option (\<lambda>(r, v). (r, isActive v))
        (TimeControllerImpl_new (no_options\<lparr>enabled_opt := Some True\<rparr>) legacy_page)
       = Some (Inr (), True)
   \<and> requested (no_options\<lparr>enabled_opt := Some True\<rparr>) legacy_page
   \<and> allowed (no_options\<lparr>enabled_opt := Some True\<rparr>) legacy_page"
proof -
  let ?on = "no_options\<lparr>enabled_opt := Some True\<rparr>"
  have g: "global_Date page = NativeDate" "global_Date legacy_page = NativeDate"
    by (simp_all add: legacy_page_def state_defs)
  have p: "startTime_opt production_options = None"
    "onTimeChange_opt production_options = None"
    "requested production_options page" "\<not> allowed production_options page"
    by (simp_all add: requested_def allowed_def shouldEnableTimeControl_def state_defs)
  from C8_initial_activation [OF g(1), of production_options,
      THEN conjunct2, THEN conjunct2, THEN conjunct2] p
  obtain v where "TimeControllerImpl_new production_options page = Some (Inr (), v)"
    and "\<not> isActive v" by blast
  then have c1: "map_option (\<lambda>(r, v). (r, isActive v))
        (TimeControllerImpl_new production_options page) = Some (Inr (), False)"
    by simp
  have i: "enabled_opt idle_options = Some False" by (simp add: state_defs)
  have e2: "map_option (\<lambda>(r, v). (r, True)) (TimeControllerImpl_new idle_options page)
       = Some (Inr (), True)"
    by (simp add: state_defs surface_defs hijacker_defs controller_defs environment_defs
        forEach.simps)
  then obtain v2 where n2: "TimeControllerImpl_new idle_options page = Some (Inr (), v2)"
    by (cases "TimeControllerImpl_new idle_options page") auto
  from C8_initial_activation [OF g(1), of idle_options "Inr ()" v2,
      THEN conjunct2, THEN conjunct1] n2 i
  have "\<not> isActive v2" by blast
  with n2 have c2: "map_option (\<lambda>(r, v). (r, isActive v))
        (TimeControllerImpl_new idle_options page) = Some (Inr (), False)"
    by simp
  have c3: "map_option (\<lambda>(r, v). (r, isActive v)) (TimeControllerImpl_new ?on legacy_page)
       = Some (Inr (), True)"
    by (simp add: legacy_page_def state_defs surface_defs hijacker_defs controller_defs
        environment_defs forEach.simps)
  then obtain v3 where n3: "TimeControllerImpl_new ?on legacy_page = Some (Inr (), v3)"
    and a3: "isActive v3"
    by (cases "TimeControllerImpl_new ?on legacy_page") auto
  from C8_initial_activation [OF g(2), of ?on "Inr ()" v3, THEN conjunct1] n3 a3
  have c4: "requested ?on legacy_page" "allowed ?on legacy_page" by blast+
  show ?thesis
    by (intro conjI) (fact g p(3,4) c1 i c2 c3 c4)+
qed

subsection \<open>The production gate\<close>

lemma hijacker_fn_body:
  "fn_body (hijackNativeFunctions w) = fn_body w"
  "fn_body (restoreNativeFunctions w) = fn_body w"
  "fn_body (hijackLibraries w) = fn_body w"
  "fn_body (restoreLibraries w) = fn_body w"
  by (simp_all add: hijackNativeFunctions_def restoreNativeFunctions_def
        hijackLibraries_def hijackDateFns_def hijackDayjs_def hijackMoment_def put_moment_def
        restoreLibraries_def restoreDateFns_def restoreDayjs_def restoreMoment_def
        split: option.splits prod.splits lib_slot.splits)

lemma enable_fn_body:
  assumes "enable w = Some (r, w')"
  shows "fn_body w' = fn_body w"
proof (cases "enabled w \<or> \<not> shouldEnableTimeControl (Some (opt_environment (options w))) w")
  case True
  with assms show ?thesis by (auto simp: enable_def split: if_splits)
next
  case False
  let ?w1 = "hijackNativeFunctions (w\<lparr>enabled := True\<rparr>)"
  let ?w2 = "if opt_hijackLibraries (options ?w1) then hijackLibraries ?w1 else ?w1"
  from assms False have "notifySubscribers ?w2 = Some (r, w')"
    by (simp add: enable_def Let_def)
  from untouched_fields(5) [OF notifySubscribers_untouched [OF this]]
  show ?thesis by (simp add: hijacker_fn_body)
qed

lemma disable_fn_body:
  assumes "disable w = Some (r, w')"
  shows "fn_body w' = fn_body w"
proof (cases "enabled w")
  case False
  with assms show ?thesis by (auto simp: disable_def)
next
  case True
  let ?w1 = "restoreLibraries (restoreNativeFunctions (w\<lparr>enabled := False\<rparr>))"
  from assms True have "notifySubscribers ?w1 = Some (r, w')" by (simp add: disable_def)
  from untouched_fields(5) [OF notifySubscribers_untouched [OF this]]
  show ?thesis by (simp add: hijacker_fn_body)
qed

lemma resetToRealTime_fields:
  assumes "resetToRealTime w = Some (r, w')"
  shows "enabled w' = enabled w" and "options w' = options w" and "fn_body w' = fn_body w"
proof -
  have "enabled w' = enabled w \<and> options w' = options w \<and> fn_body w' = fn_body w"
  proof (cases "new_Date None w")
    case (Inl e)
    with assms show ?thesis by (auto simp: resetToRealTime_def)
  next
    case (Inr d)
    with assms have "setTime (ArgDate d) w = Some (r, w')" by (simp add: resetToRealTime_def)
    from setTime_fields [OF this] show ?thesis by simp
  qed
  then show "enabled w' = enabled w" and "options w' = options w"
    and "fn_body w' = fn_body w" by simp_all
qed

lemma updateOptions_fields:
  assumes "updateOptions n w = Some (r, w')"
  shows "enabled w' = enabled w" and "options w' = merge_options (options w) n"
    and "fn_body w' = fn_body w"
proof -
  let ?w1 = "w\<lparr>options := merge_options (options w) n\<rparr>"
  let ?w2 = "if enabled ?w1 \<and> opt_hijackLibraries (options w) \<noteq> opt_hijackLibraries (options ?w1)
             then (if opt_hijackLibraries (options ?w1) then hijackLibraries ?w1
                   else restoreLibraries ?w1)
             else ?w1"
  have w2: "enabled ?w2 = enabled w" "options ?w2 = merge_options (options w) n"
    "fn_body ?w2 = fn_body w"
    by (simp_all add: hijackLibraries_fields restoreLibraries_fields hijacker_fn_body)
  have "untouched ?w2 w'"
  proof (cases "onTimeChange_opt n")
    case None
    with assms have "w' = ?w2" by (simp add: updateOptions_def Let_def)
    then show ?thesis by (simp add: untouched_refl)
  next
    case (Some f)
    show ?thesis
    proof (cases "getCurrentTime ?w2")
      case (Inl e)
      with assms Some have "w' = ?w2" by (simp add: updateOptions_def Let_def)
      then show ?thesis by (simp add: untouched_refl)
    next
      case (Inr t)
      with assms Some have "Some (r, w') = Some (call_fn f t ?w2)"
        by (simp add: updateOptions_def Let_def)
      then have "w' = snd (call_fn f t ?w2)" by (metis option.inject snd_conv)
      then show ?thesis using call_fn_untouched [of ?w2 f t] by simp
    qed
  qed
  from untouched_fields(1,2,5) [OF this] w2
  show "enabled w' = enabled w" and "options w' = merge_options (options w) n"
    and "fn_body w' = fn_body w" by simp_all
qed

lemma updateOptions_total: "\<exists>r w'. updateOptions n w = Some (r, w')"
proof -
  have "\<exists>p. updateOptions n w = Some p"
    by (simp add: updateOptions_def Let_def split: option.splits sum.splits)
  then show ?thesis by auto
qed

lemma destroy_fields:
  assumes "destroy w = Some (r, w')"
  shows "enabled w' = False" and "options w' = options w" and "fn_body w' = fn_body w"
proof -
  have "enabled w' = False \<and> options w' = options w \<and> fn_body w' = fn_body w"
  proof (cases "disable w")
    case None
    with assms show ?thesis by (simp add: destroy_def)
  next
    case (Some p)
    obtain r1 w1 where p: "p = (r1, w1)" by (cases p)
    note d = disable_fields [of w r1 w1] disable_fn_body [of w r1 w1]
    show ?thesis
    proof (cases r1)
      case (Inl e)
      with assms Some p have "w' = w1" by (simp add: destroy_def)
      with d Some p show ?thesis by simp
    next
      case (Inr u)
      with assms Some p
      have "w' = (TimeHijacker_destroy w1)\<lparr>subscribers := Set_clear (subscribers (TimeHijacker_destroy w1))\<rparr>"
        by (simp add: destroy_def Let_def)
      with d Some p show ?thesis
        by (simp add: TimeHijacker_destroy_def restoreNativeFunctions_fields
              restoreLibraries_fields hijacker_fn_body)
    qed
  qed
  then show "enabled w' = False" and "options w' = options w" and "fn_body w' = fn_body w"
    by simp_all
qed

lemma apply_op_fn_body:
  assumes "apply_op op w = Some (r, w')"
  shows "fn_body w' = fn_body w"
proof (cases op)
  case OpGetCurrentTime
  with assms show ?thesis by (auto split: sum.splits)
next
  case (OpSetTime a)
  with assms show ?thesis using setTime_fields(4) by simp
next
  case (OpAddTime x)
  with assms show ?thesis using addTime_fields(4) by simp
next
  case (OpAddMinutes x)
  with assms show ?thesis using addTime_fields(4) by (simp add: addMinutes_def)
next
  case (OpAddHours x)
  with assms show ?thesis using addTime_fields(4) by (simp add: addHours_def)
next
  case (OpAddDays x)
  with assms show ?thesis using addTime_fields(4) by (simp add: addDays_def)
next
  case OpResetToRealTime
  with assms show ?thesis using resetToRealTime_fields(3) by simp
next
  case OpIsActive
  with assms show ?thesis by auto
next
  case OpEnable
  with assms show ?thesis using enable_fn_body by simp
next
  case OpDisable
  with assms show ?thesis using disable_fn_body by simp
next
  case (OpSubscribe c)
  with assms show ?thesis by (cases c) (auto simp: subscribe_def)
next
  case (OpUnsubscribe g)
  with assms show ?thesis by (auto simp: unsubscribe_def)
next
  case (OpUpdateOptions n)
  with assms show ?thesis using updateOptions_fields(3) by simp
next
  case OpDestroy
  with assms show ?thesis using destroy_fields(3) by simp
qed

lemma setTime_total:
  assumes "never_subscribes w"
  shows "\<exists>r w'. setTime a w = Some (r, w')"
proof (cases "new_Date (Some a) w")
  case (Inl e)
  then show ?thesis by (simp add: setTime_def)
next
  case (Inr d)
  have "never_subscribes (w\<lparr>currentTime := d\<rparr>)"
    using assms by (simp add: never_subscribes_currentTime)
  from announce_total [OF this] Inr show ?thesis by (simp add: setTime_def)
qed

lemma enable_total:
  assumes "never_subscribes w"
  shows "\<exists>r w'. enable w = Some (r, w')"
proof -
  let ?w1 = "hijackNativeFunctions (w\<lparr>enabled := True\<rparr>)"
  let ?w2 = "if opt_hijackLibraries (options ?w1) then hijackLibraries ?w1 else ?w1"
  have "never_subscribes ?w2"
    using assms by (simp add: never_subscribes_def hijacker_fn_body)
  from notifySubscribers_total [OF this] show ?thesis
    by (auto simp: enable_def Let_def)
qed

lemma disable_total:
  assumes "never_subscribes w"
  shows "\<exists>r w'. disable w = Some (r, w')"
proof -
  let ?w1 = "restoreLibraries (restoreNativeFunctions (w\<lparr>enabled := False\<rparr>))"
  have "never_subscribes ?w1"
    using assms by (simp add: never_subscribes_def hijacker_fn_body)
  from notifySubscribers_total [OF this] show ?thesis
    by (auto simp: disable_def)
qed

lemma apply_op_total:
  assumes "never_subscribes w"
  shows "\<exists>r w'. apply_op op w = Some (r, w')"
proof (cases op)
  case OpGetCurrentTime
  then show ?thesis by (cases "getCurrentTime w") simp_all
next
  case (OpSetTime a)
  then show ?thesis using setTime_total [OF assms] by simp
next
  case (OpAddTime x)
  then show ?thesis using addTime_total [OF assms] by simp
next
  case (OpAddMinutes x)
  then show ?thesis using addTime_total [OF assms] by (simp add: addMinutes_def)
next
  case (OpAddHours x)
  then show ?thesis using addTime_total [OF assms] by (simp add: addHours_def)
next
  case (OpAddDays x)
  then show ?thesis using addTime_total [OF assms] by (simp add: addDays_def)
next
  case OpResetToRealTime
  then show ?thesis
    using setTime_total [OF assms]
    by (cases "new_Date None w") (simp_all add: resetToRealTime_def)
next
  case OpIsActive
  then show ?thesis by simp
next
  case OpEnable
  then show ?thesis using enable_total [OF assms] by simp
next
  case OpDisable
  then show ?thesis using disable_total [OF assms] by simp
next
  case (OpSubscribe c)
  then show ?thesis by (cases "subscribe c w") simp
next
  case (OpUnsubscribe g)
  then show ?thesis by simp
next
  case (OpUpdateOptions n)
  then show ?thesis using updateOptions_total by simp
next
  case OpDestroy
  obtain r1 w1 where d: "disable w = Some (r1, w1)" using disable_total [OF assms] by blast
  with OpDestroy show ?thesis by (cases r1) (simp_all add: destroy_def Let_def)
qed

lemma run_ops_total:
  "never_subscribes w \<Longrightarrow> \<exists>w'. run_ops ops w = Some w'"
proof (induction ops arbitrary: w)
  case Nil
  show ?case by simp
next
  case (Cons op ops)
  obtain r w1 where a: "apply_op op w = Some (r, w1)"
    using apply_op_total [OF Cons.prems] by blast
  have "never_subscribes w1"
    using Cons.prems apply_op_fn_body [OF a] by (simp add: never_subscribes_def)
  from Cons.IH [OF this] a show ?case by simp
qed

lemma enable_in_production:
  assumes "opt_environment (options w) = Production" and "\<not> enabled w"
  shows "enable w = Some (Inr (), w\<lparr>console := console w @ [Warn_cannot_enable_in_production]\<rparr>)"
  using assms by (simp add: enable_def shouldEnableTimeControl_def)

lemma apply_op_production:
  assumes a: "apply_op op w = Some (r, w')"
    and e: "opt_environment (options w) = Production" and d: "\<not> enabled w"
    and k: "keeps_environment op"
  shows "opt_environment (options w') = Production \<and> \<not> enabled w'"
proof (cases op)
  case OpGetCurrentTime
  with a e d show ?thesis by (auto split: sum.splits)
next
  case (OpSetTime x)
  with a e d show ?thesis using setTime_fields(1,2) [of x w r w'] by simp
next
  case (OpAddTime x)
  with a e d show ?thesis using addTime_fields(1,2) [of x w r w'] by simp
next
  case (OpAddMinutes x)
  with a e d show ?thesis
    using addTime_fields(1,2) [of _ w r w'] by (simp add: addMinutes_def)
next
  case (OpAddHours x)
  with a e d show ?thesis
    using addTime_fields(1,2) [of _ w r w'] by (simp add: addHours_def)
next
  case (OpAddDays x)
  with a e d show ?thesis
    using addTime_fields(1,2) [of _ w r w'] by (simp add: addDays_def)
next
  case OpResetToRealTime
  with a e d show ?thesis using resetToRealTime_fields(1,2) [of w r w'] by simp
next
  case OpIsActive
  with a e d show ?thesis by auto
next
  case OpEnable
  with a e d show ?thesis using enable_in_production [OF e d] by auto
next
  case OpDisable
  with a e d show ?thesis by (auto simp: disable_def)
next
  case (OpSubscribe c)
  with a e d show ?thesis by (cases c) (auto simp: subscribe_def)
next
  case (OpUnsubscribe g)
  with a e d show ?thesis by (auto simp: unsubscribe_def)
next
  case (OpUpdateOptions n)
  with a have u: "updateOptions n w = Some (r, w')" by simp
  from k OpUpdateOptions have "environment_opt n = None \<or> environment_opt n = Some Production"
    by simp
  then have "opt_environment (merge_options (options w) n) = Production"
    using e by (auto simp: merge_options_def)
  with updateOptions_fields(1,2) [OF u] d show ?thesis by simp
next
  case OpDestroy
  with a e d show ?thesis using destroy_fields(1,2) [of w r w'] by simp
qed

lemma run_ops_production:
  assumes "run_ops ops w = Some w'"
    and "opt_environment (options w) = Production" and "\<not> enabled w"
    and "list_all keeps_environment ops"
  shows "opt_environment (options w') = Production \<and> \<not> enabled w'"
  using assms
proof (induction ops arbitrary: w)
  case Nil
  then show ?case by simp
next
  case (Cons op ops)
  from Cons.prems(1) obtain r w1 where a: "apply_op op w = Some (r, w1)"
    and b: "run_ops ops w1 = Some w'"
    by (auto split: option.splits)
  from apply_op_production [OF a Cons.prems(2,3)] Cons.prems(4)
  have "opt_environment (options w1) = Production \<and> \<not> enabled w1" by simp
  with Cons.IH [OF b] Cons.prems(4) show ?case by simp
qed

lemma production_controller_constructed:
  "TimeControllerImpl_new auto_production_options page = Some (Inr (), production_controller)"
  by (simp add: state_defs surface_defs hijacker_defs controller_defs environment_defs
        forEach.simps)

text \<open>
  C1 (as the specification states it). For a controller whose environment is production and
  whose activation is left to the policy, \<^verbatim>\<open>isActive()\<close> is false after any sequence of
  operations. \<^verbatim>\<open>updateOptions\<close> is one of the operations, and it replaces the environment
  the gate of \<^verbatim>\<open>enable()\<close> reads: after \<^verbatim>\<open>updateOptions({ environment: 'development' })\<close>,
  \<^verbatim>\<open>enable()\<close> passes the gate and sets the flag.
\<close>

theorem C1_updateOptions_lifts_the_gate:
  "TimeControllerImpl_new auto_production_options page = Some (Inr (), production_controller)
   \<and> opt_environment (options production_controller) = Production
   \<and> \<not> isActive production_controller
   \<and> map_option isActive
        (run_ops [OpUpdateOptions (no_options\<lparr>environment_opt := Some Development\<rparr>),
                  OpEnable, OpIsActive]
           production_controller)
       = Some True"
  by (simp add: state_defs surface_defs hijacker_defs controller_defs environment_defs
        forEach.simps)

text \<open>
  C1 (amended). The policy function is false for production and true for development and test. A
  controller built with \<^verbatim>\<open>environment: 'production'\<close> and no \<^verbatim>\<open>enabled\<close> option is returned
  Disabled. In a Disabled controller whose environment is production, \<^verbatim>\<open>enable()\<close> returns
  normally and changes nothing but the console, where it writes the warning. From such a
  controller no run of the public operations reaches the Enabled state, as long as no
  \<^verbatim>\<open>updateOptions\<close> call gives the controller another environment; and the run ends when no
  callback subscribes from its body.
\<close>

theorem C1_production_is_never_enabled:
  "(\<not> shouldEnableTimeControl (Some Production) v
      \<and> shouldEnableTimeControl (Some Development) v
      \<and> shouldEnableTimeControl (Some Test) v)
   \<and> (environment_opt opts = Some Production \<and> enabled_opt opts = None
        \<and> TimeControllerImpl_new opts v = Some (Inr (), w0) \<longrightarrow>
      \<not> isActive w0 \<and> opt_environment (options w0) = Production)
   \<and> (opt_environment (options w) = Production \<and> \<not> isActive w \<longrightarrow>
      enable w
        = Some (Inr (), w\<lparr>console := console w @ [Warn_cannot_enable_in_production]\<rparr>))
   \<and> (opt_environment (options w) = Production \<and> \<not> isActive w
        \<and> list_all keeps_environment ops \<and> run_ops ops w = Some w' \<longrightarrow>
      \<not> isActive w' \<and> opt_environment (options w') = Production)
   \<and> (opt_environment (options w) = Production \<and> \<not> isActive w
        \<and> list_all keeps_environment ops \<and> never_subscribes w \<longrightarrow>
      (\<exists>w'. run_ops ops w = Some w' \<and> \<not> isActive w'))"
proof (intro conjI impI)
  show "\<not> shouldEnableTimeControl (Some Production) v"
    and "shouldEnableTimeControl (Some Development) v"
    and "shouldEnableTimeControl (Some Test) v"
    by (simp_all add: shouldEnableTimeControl_def)
next
  assume a: "environment_opt opts = Some Production \<and> enabled_opt opts = None
        \<and> TimeControllerImpl_new opts v = Some (Inr (), w0)"
  then have c: "TimeControllerImpl_new opts v = Some (Inr (), w0)" by simp
  obtain d0 where n: "new_Date None v = Inr d0"
    using c by (cases "new_Date None v") (simp_all add: TimeControllerImpl_new_def)
  have "\<not> allowed opts v" using a by (simp add: allowed_def shouldEnableTimeControl_def)
  with TimeControllerImpl_new_enabled(2) [OF n c] a
  show "\<not> isActive w0" and "opt_environment (options w0) = Production"
    by (simp_all add: isActive_def)
next
  assume "opt_environment (options w) = Production \<and> \<not> isActive w"
  then show "enable w
        = Some (Inr (), w\<lparr>console := console w @ [Warn_cannot_enable_in_production]\<rparr>)"
    using enable_in_production by (simp add: isActive_def)
next
  assume a: "opt_environment (options w) = Production \<and> \<not> isActive w
        \<and> list_all keeps_environment ops \<and> run_ops ops w = Some w'"
  with run_ops_production [of ops w w']
  show "\<not> isActive w'" and "opt_environment (options w') = Production"
    by (simp_all add: isActive_def)
next
  assume a: "opt_environment (options w) = Production \<and> \<not> isActive w
        \<and> list_all keeps_environment ops \<and> never_subscribes w"
  then obtain w' where r: "run_ops ops w = Some w'" using run_ops_total by blast
  with run_ops_production [of ops w w'] a have "\<not> isActive w'" by (simp add: isActive_def)
  with r show "\<exists>w'. run_ops ops w = Some w' \<and> \<not> isActive w'" by blast
qed

theorem C1_production_is_never_enabled_witness:
  "environment_opt auto_production_options = Some Production
   \<and> enabled_opt auto_production_options = None
   \<and> TimeControllerImpl_new auto_production_options page = Some (Inr (), production_controller)
   \<and> opt_environment (options production_controller) = Production
   \<and> \<not> isActive production_controller
   \<and> never_subscribes production_controller
   \<and> enable production_controller
       = Some (Inr (), production_controller
                 \<lparr>console := [Warn_environment Production, Warn_cannot_enable_in_production]\<rparr>)
   \<and> map_option isActive
        (run_ops [OpEnable, OpSetTime (ArgNumber (Num 5)), OpSubscribe (Fn 1), OpAddDays (Num 31),
                  OpUpdateOptions (no_options\<lparr>enabled_opt := Some True\<rparr>), OpEnable,
                  OpResetToRealTime, OpDisable, OpEnable, OpDestroy, OpEnable]
           production_controller)
       = Some False"
proof -
  let ?ops = "[OpEnable, OpSetTime (ArgNumber (Num 5)), OpSubscribe (Fn 1), OpAddDays (Num 31),
          OpUpdateOptions (no_options\<lparr>enabled_opt := Some True\<rparr>), OpEnable,
          OpResetToRealTime, OpDisable, OpEnable, OpDestroy, OpEnable]"
  note inst = C1_production_is_never_enabled
    [of page auto_production_options production_controller production_controller ?ops]
  have o: "environment_opt auto_production_options = Some Production"
    "enabled_opt auto_production_options = None"
    by (simp_all add: state_defs)
  have p: "opt_environment (options production_controller) = Production"
    "\<not> isActive production_controller" "never_subscribes production_controller"
    by (simp_all add: never_subscribes_def isActive_def state_defs)
  have k: "list_all keeps_environment ?ops" by (simp add: state_defs)
  have c: "console production_controller = [Warn_environment Production]"
    by (simp add: state_defs)
  from inst [THEN conjunct2, THEN conjunct2, THEN conjunct1] p
  have "enable production_controller
       = Some (Inr (), production_controller
                 \<lparr>console := console production_controller
                               @ [Warn_cannot_enable_in_production]\<rparr>)"
    by blast
  then have e: "enable production_controller
       = Some (Inr (), production_controller
                 \<lparr>console := [Warn_environment Production, Warn_cannot_enable_in_production]\<rparr>)"
    by (simp only: c append.simps)
  from inst [THEN conjunct2, THEN conjunct2, THEN conjunct2, THEN conjunct2] p k
  obtain w' where r: "run_ops ?ops production_controller = Some w'"
    and a: "\<not> isActive w'"
    by blast
  have m: "map_option isActive (run_ops ?ops production_controller) = Some False"
    by (simp only: r option.map a)
  note t = production_controller_constructed
  show ?thesis
    by (intro conjI) (fact o p e m t)+
qed

end
